theory Spec2Isabelle
  imports Main "HOL-Library.Sublist" "HOL-Library.Word"
begin

section \<open>Errors\<close>

text \<open>
  Every \<open>throw new Error(...)\<close> of \<open>common/webgpu-utils.js\<close> is a constructor here; the
  comment gives the message of the throw site.  Exceptions of the browser API that the
  modelled code can meet are constructors too.
\<close>

datatype error =
    ShaderLoadError            \<comment> \<open>loadShaderFromFile: 'Error loading shader from ...'\<close>
  | MissingEntryPoint          \<comment> \<open>parseEntryPoints: 'Compute shader must contain @compute entry point',
                                   'Render shader must contain both @vertex and @fragment entry points'\<close>
  | NoVertexAttributes         \<comment> \<open>createPipeline: 'No vertex attributes found in shader'\<close>
  | UnsupportedVertexLayout "nat list"
                               \<comment> \<open>generateBufferLayouts: 'Missing required vertex attributes. Expected
                                   locations 0,1,2, found ...' (the argument is the found list)\<close>
  | EmptyBufferLayouts         \<comment> \<open>createPipeline: 'Failed to generate buffer layouts'\<close>
  | DeviceValidationError      \<comment> \<open>thrown by the device while it creates a module or a pipeline\<close>
  | RangeError                 \<comment> \<open>TypedArray.set with a source longer than the target\<close>
  | OperationError             \<comment> \<open>getMappedRange on a buffer that is not mapped\<close>
  | ReferenceError             \<comment> \<open>evaluation of a name that nothing defines\<close>

section \<open>Characters and the anchored pieces of the regular expressions\<close>

text \<open>
  Shader text is a \<open>string\<close>: a list of code units below 256.  The classes are those of
  the JavaScript regular expressions on that range: white space (tab, line feed, vertical
  tab, form feed, carriage return, space, no-break space), decimal digits, and word
  characters (letters, digits, underscore).
\<close>

definition is_space :: "char \<Rightarrow> bool" where
  "is_space c = (c \<in> set [CHR 0x09, CHR 0x0A, CHR 0x0B, CHR 0x0C, CHR 0x0D, CHR '' '', CHR 0xA0])"

definition is_digit :: "char \<Rightarrow> bool" where
  "is_digit c = (let n = (of_char c :: nat) in 48 \<le> n \<and> n \<le> 57)"

definition is_alpha :: "char \<Rightarrow> bool" where
  "is_alpha c = (let n = (of_char c :: nat) in (65 \<le> n \<and> n \<le> 90) \<or> (97 \<le> n \<and> n \<le> 122))"

definition is_word :: "char \<Rightarrow> bool" where
  "is_word c = (is_alpha c \<or> is_digit c \<or> c = CHR ''_'')"

text \<open>The class of an entry-point name in parseEntryPoints: anything but white space and
  an opening parenthesis.\<close>

definition is_name_char :: "char \<Rightarrow> bool" where
  "is_name_char c = (\<not> is_space c \<and> c \<noteq> CHR ''('')"

text \<open>parseInt on a run of decimal digits (a JavaScript number, exact below \<open>2^53\<close>).\<close>

definition parseInt :: "string \<Rightarrow> nat" where
  "parseInt ds = foldl (\<lambda>n c. 10 * n + (of_char c - 48)) 0 ds"

text \<open>
  \<open>RegExp.exec\<close> without the sticky flag tries the pattern at every start position from the
  left, the end of the text included, and returns the first success.  The argument is
  the pattern anchored at the head of the text.
\<close>

fun exec_first :: "(string \<Rightarrow> 'a option) \<Rightarrow> string \<Rightarrow> 'a option" where
  "exec_first m [] = m []"
| "exec_first m (c # cs) = (case m (c # cs) of Some r \<Rightarrow> Some r | None \<Rightarrow> exec_first m cs)"

section \<open>Type tables of webgpu-utils.js\<close>

text \<open>
  \<open>typeMap\<close> and \<open>sizes\<close> are object literals, read with \<open>table[type] || default\<close>.
  A key that the literal does not own is looked up in \<open>Object.prototype\<close>; its members
  are functions or objects, hence truthy, and are what the expression then returns.
  A read therefore yields a value of the table (each of them is truthy), a member of the
  prototype, or the default.
\<close>

datatype 'a js_value = Val 'a | ProtoMember string

definition objectPrototypeKeys :: "string list" where
  "objectPrototypeKeys =
    [''constructor'', ''__defineGetter__'', ''__defineSetter__'', ''hasOwnProperty'',
     ''__lookupGetter__'', ''__lookupSetter__'', ''isPrototypeOf'', ''propertyIsEnumerable'',
     ''toString'', ''valueOf'', ''__proto__'', ''toLocaleString'']"

definition lookup_or :: "(string \<times> 'a) list \<Rightarrow> string \<Rightarrow> 'a \<Rightarrow> 'a js_value" where
  "lookup_or table key dflt =
     (case map_of table key of
        Some v \<Rightarrow> Val v
      | None \<Rightarrow> if key \<in> set objectPrototypeKeys then ProtoMember key else Val dflt)"

definition typeMap :: "(string \<times> string) list" where
  "typeMap =
    [(''f32'', ''float32''), (''vec2f'', ''float32x2''), (''vec3f'', ''float32x3''),
     (''vec4f'', ''float32x4''),
     (''i32'', ''sint32''), (''vec2i'', ''sint32x2''), (''vec3i'', ''sint32x3''),
     (''vec4i'', ''sint32x4''),
     (''u32'', ''uint32''), (''vec2u'', ''uint32x2''), (''vec3u'', ''uint32x3''),
     (''vec4u'', ''uint32x4'')]"

definition typeToFormat :: "string \<Rightarrow> string js_value" where
  "typeToFormat type = lookup_or typeMap type ''float32''"

definition sizes :: "(string \<times> nat) list" where
  "sizes = [(''f32'', 4), (''vec2f'', 8), (''vec3f'', 12), (''vec4f'', 16)]"

definition typeToSize :: "string \<Rightarrow> nat js_value" where
  "typeToSize type = lookup_or sizes type 0"

text \<open>formatSize: the first "digits x digits" of the format name, multiplied out and
  times four; four bytes when the name has none.\<close>

definition dims_at :: "string \<Rightarrow> (string \<times> string) option" where
  "dims_at s =
     (let d1 = takeWhile is_digit s; r = dropWhile is_digit s; d2 = takeWhile is_digit (drop 1 r)
      in if d1 \<noteq> [] \<and> prefix ''x'' r \<and> d2 \<noteq> [] then Some (d1, d2) else None)"

definition formatSize :: "string \<Rightarrow> nat" where
  "formatSize format =
     (case exec_first dims_at format of
        Some (a, b) \<Rightarrow> parseInt a * parseInt b * 4
      | None \<Rightarrow> 4)"

section \<open>Vertex attributes and buffer layouts\<close>

text \<open>The objects parseShaderLocations pushes, and the layout objects that
  generateBufferLayouts returns.\<close>

record location_info =
  location :: nat
  name :: string
  type :: string
  bytesPerElement :: "nat js_value"

record vertex_attribute =
  shaderLocation :: nat
  offset :: nat
  format :: string

record buffer_layout =
  arrayStride :: nat
  stepMode :: string
  attributes :: "vertex_attribute list"

definition expectedLocations :: "nat list" where
  "expectedLocations = [0, 1, 2]"

text \<open>The validation: every expected location is among the declared ones.\<close>

definition locations_valid :: "nat list \<Rightarrow> bool" where
  "locations_valid actualLocations =
     list_all (\<lambda>l. l \<in> set actualLocations) expectedLocations"

definition generateBufferLayouts :: "location_info list \<Rightarrow> error + buffer_layout list" where
  "generateBufferLayouts locations =
     (let actualLocations = map location locations in
      if \<not> locations_valid actualLocations
      then Inl (UnsupportedVertexLayout actualLocations)
      else
        let instanceAttrs = filter (\<lambda>l. location l < 2) locations;
            instanceBuffer =
              \<lparr>arrayStride = 16, stepMode = ''instance'',
               attributes = map (\<lambda>attr. \<lparr>shaderLocation = location attr,
                                          offset = location attr * 8,
                                          format = ''float32x2''\<rparr>) instanceAttrs\<rparr>;
            vertexBuffer =
              \<lparr>arrayStride = 8, stepMode = ''vertex'',
               attributes = [\<lparr>shaderLocation = 2, offset = 0, format = ''float32x2''\<rparr>]\<rparr>
        in Inr [instanceBuffer, vertexBuffer])"

text \<open>The two layouts that the boids shader is meant to get.\<close>

definition boids_layouts :: "buffer_layout list" where
  "boids_layouts =
     [\<lparr>arrayStride = 16, stepMode = ''instance'',
       attributes = [\<lparr>shaderLocation = 0, offset = 0, format = ''float32x2''\<rparr>,
                     \<lparr>shaderLocation = 1, offset = 8, format = ''float32x2''\<rparr>]\<rparr>,
      \<lparr>arrayStride = 8, stepMode = ''vertex'',
       attributes = [\<lparr>shaderLocation = 2, offset = 0, format = ''float32x2''\<rparr>]\<rparr>]"

section \<open>Entry points (parseEntryPoints)\<close>

text \<open>
  The three patterns of parseEntryPoints, anchored at the head of the text.  Each greedy
  run in them is followed by a character outside the run's class, so the only
  backtracking that can succeed is over the start position and over the lazy skip of the
  compute pattern.

  \<^item> \<open>fn_decl_at\<close>: "fn", white space, then the captured name (a maximal run of name
    characters).
  \<^item> \<open>stage_fn_at marker\<close>: the marker, white space, then \<open>fn_decl_at\<close>
    (the vertex and the fragment pattern).
  \<^item> \<open>stage_fn_lazy_at marker\<close>: the marker, the shortest skip of any characters, then
    \<open>fn_decl_at\<close> (the compute pattern).
\<close>

definition fn_decl_at :: "string \<Rightarrow> string option" where
  "fn_decl_at s =
     (if prefix ''fn'' s then
        let r = drop 2 s; nm = takeWhile is_name_char (dropWhile is_space r)
        in if takeWhile is_space r \<noteq> [] \<and> nm \<noteq> [] then Some nm else None
      else None)"

definition stage_fn_at :: "string \<Rightarrow> string \<Rightarrow> string option" where
  "stage_fn_at marker s =
     (if prefix marker s then
        let r = drop (length marker) s
        in if takeWhile is_space r \<noteq> [] then fn_decl_at (dropWhile is_space r) else None
      else None)"

definition stage_fn_lazy_at :: "string \<Rightarrow> string \<Rightarrow> string option" where
  "stage_fn_lazy_at marker s =
     (if prefix marker s then exec_first fn_decl_at (drop (length marker) s) else None)"

record entry_points =
  vertex :: "string option"
  fragment :: "string option"
  compute :: "string option"

definition parseEntryPoints :: "string \<Rightarrow> string \<Rightarrow> error + entry_points" where
  "parseEntryPoints shaderCode type' =
     (let vertexMatch =
            (if type' = ''render'' then exec_first (stage_fn_at ''@vertex'') shaderCode else None);
          fragmentMatch =
            (if type' = ''render'' then exec_first (stage_fn_at ''@fragment'') shaderCode else None);
          computeMatch =
            (if type' = ''compute'' then exec_first (stage_fn_lazy_at ''@compute'') shaderCode
             else None)
      in if type' = ''compute'' \<and> computeMatch = None then Inl MissingEntryPoint
         else if type' = ''render'' \<and> (vertexMatch = None \<or> fragmentMatch = None)
         then Inl MissingEntryPoint
         else Inr \<lparr>vertex = vertexMatch, fragment = fragmentMatch, compute = computeMatch\<rparr>)"

text \<open>
  What parseEntryPoints is to find, said without the scanner.  A text declares the entry
  point \<open>nm\<close> for a stage when it holds the stage marker, white space, "fn", white
  space and then the name (vertex and fragment); for the compute stage anything may
  stand between the marker and "fn".  The name is the whole run of name characters.
\<close>

definition declares_entry :: "string \<Rightarrow> string \<Rightarrow> string \<Rightarrow> bool" where
  "declares_entry marker nm code \<longleftrightarrow>
     (\<exists>pre ws1 ws2 rest.
        code = pre @ marker @ ws1 @ ''fn'' @ ws2 @ nm @ rest \<and>
        ws1 \<noteq> [] \<and> list_all is_space ws1 \<and> ws2 \<noteq> [] \<and> list_all is_space ws2 \<and>
        nm \<noteq> [] \<and> list_all is_name_char nm \<and> (rest = [] \<or> \<not> is_name_char (hd rest)))"

definition declares_entry_after :: "string \<Rightarrow> string \<Rightarrow> string \<Rightarrow> bool" where
  "declares_entry_after marker nm code \<longleftrightarrow>
     (\<exists>pre mid ws rest.
        code = pre @ marker @ mid @ ''fn'' @ ws @ nm @ rest \<and>
        ws \<noteq> [] \<and> list_all is_space ws \<and> nm \<noteq> [] \<and> list_all is_name_char nm \<and>
        (rest = [] \<or> \<not> is_name_char (hd rest)))"

section \<open>Vertex attributes (parseShaderLocations)\<close>

text \<open>
  The parameter list of the vertex function: after "@vertex" and the shortest skip, "fn",
  white space, a word, optional white space, "(", the shortest capture that is followed
  by ")", optional white space and "->" or an opening brace.
\<close>

definition params_end_at :: "string \<Rightarrow> bool" where
  "params_end_at s =
     (prefix '')'' s \<and>
      (let r = dropWhile is_space (drop 1 s) in prefix ''->'' r \<or> prefix ''{'' r))"

fun capture_until :: "(string \<Rightarrow> bool) \<Rightarrow> string \<Rightarrow> string option" where
  "capture_until stop [] = (if stop [] then Some [] else None)"
| "capture_until stop (c # cs) =
     (if stop (c # cs) then Some [] else map_option ((#) c) (capture_until stop cs))"

definition fn_params_at :: "string \<Rightarrow> string option" where
  "fn_params_at s =
     (if prefix ''fn'' s then
        let r = drop 2 s; r1 = dropWhile is_space r; r2 = dropWhile is_space (dropWhile is_word r1)
        in if takeWhile is_space r \<noteq> [] \<and> takeWhile is_word r1 \<noteq> [] \<and> prefix ''('' r2
           then capture_until params_end_at (drop 1 r2)
           else None
      else None)"

definition vertex_params_at :: "string \<Rightarrow> string option" where
  "vertex_params_at s =
     (if prefix ''@vertex'' s then exec_first fn_params_at (drop 7 s) else None)"

text \<open>Removal of the block comments from the parameter text: every "/*" that has a
  later "*/" is cut out through the first such "*/".\<close>

fun after_comment_end :: "string \<Rightarrow> string option" where
  "after_comment_end [] = None"
| "after_comment_end (c # cs) =
     (if prefix ''*/'' (c # cs) then Some (drop 1 cs) else after_comment_end cs)"

function strip_comments :: "string \<Rightarrow> string" where
  "strip_comments [] = []"
| "strip_comments (c # cs) =
     (if prefix ''/*'' (c # cs) then
        (case after_comment_end (drop 1 cs) of
           Some rest \<Rightarrow> strip_comments rest
         | None \<Rightarrow> c # strip_comments cs)
      else c # strip_comments cs)"
  by pat_completeness auto
termination
proof (relation "measure length")
  show "wf (measure length)" by simp
next
  fix c :: char and cs rest :: string
  assume "after_comment_end (drop 1 cs) = Some rest"
  moreover have "after_comment_end s = Some r \<Longrightarrow> length r \<le> length s" for s r
    by (induction s arbitrary: r) (auto split: if_splits)
  ultimately have "length rest \<le> length (drop 1 cs)" by blast
  then show "(rest, c # cs) \<in> measure length" by simp
qed simp_all

text \<open>
  One parameter declaration anchored at the head of the text: "@location(", digits, ")",
  white space, an identifier, optional white space, ":", optional white space, a type
  name.  The result is the three captures and the text after the match, where the loop
  over the global pattern resumes.
\<close>

definition location_param_at :: "string \<Rightarrow> ((string \<times> string \<times> string) \<times> string) option" where
  "location_param_at s =
     (if prefix ''@location('' s then
        let r = drop 10 s; ds = takeWhile is_digit r; r1 = dropWhile is_digit r;
            r2 = drop 1 r1; r3 = dropWhile is_space r2;
            nm = takeWhile is_word r3; r4 = dropWhile is_space (dropWhile is_word r3);
            r5 = dropWhile is_space (drop 1 r4); ty = takeWhile is_word r5
        in if ds \<noteq> [] \<and> prefix '')'' r1 \<and> takeWhile is_space r2 \<noteq> [] \<and>
              nm \<noteq> [] \<and> \<not> is_digit (hd nm) \<and> prefix '':'' r4 \<and> ty \<noteq> []
           then Some ((ds, nm, ty), dropWhile is_word r5)
           else None
      else None)"

function scan_params :: "string \<Rightarrow> (string \<times> string \<times> string) list" where
  "scan_params [] = []"
| "scan_params (c # cs) =
     (case location_param_at (c # cs) of
        Some (m, rest) \<Rightarrow> m # scan_params rest
      | None \<Rightarrow> scan_params cs)"
  by pat_completeness auto
termination
proof (relation "measure length")
  show "wf (measure length)" by simp
next
  fix c :: char and cs rest :: string and m x
  assume "location_param_at (c # cs) = Some x" and "(m, rest) = x"
  then have *: "location_param_at (c # cs) = Some (m, rest)" by simp
  have d: "length (dropWhile P xs) \<le> length xs" for P and xs :: string
    by (rule length_dropWhile_le)
  have shorter: "length r < length s" if m: "location_param_at s = Some (k, r)" for s k r
  proof -
    let ?a = "dropWhile is_digit (drop 10 s)"
    let ?b = "dropWhile is_space (drop 1 ?a)"
    let ?c = "dropWhile is_space (dropWhile is_word ?b)"
    let ?e = "dropWhile is_word (dropWhile is_space (drop 1 ?c))"
    have pre: "prefix ''@location('' s"
      using m by (simp add: location_param_at_def split: if_splits)
    have "length ''@location('' \<le> length s"
      using pre by (rule prefix_length_le)
    then have len: "10 \<le> length s" by simp
    have r: "r = ?e"
      using m by (simp add: location_param_at_def Let_def split: if_splits)
    have 1: "length ?a \<le> length s - 10"
      using d [of is_digit "drop 10 s"] by simp
    have 2: "length ?b \<le> length ?a"
      using d [of is_space "drop 1 ?a"] by simp
    have 3: "length ?c \<le> length ?b"
      using d [of is_space "dropWhile is_word ?b"] d [of is_word ?b] by simp
    have 4: "length ?e \<le> length ?c"
      using d [of is_word "dropWhile is_space (drop 1 ?c)"] d [of is_space "drop 1 ?c"] by simp
    from 1 2 3 4 len show ?thesis unfolding r by linarith
  qed
  from shorter [OF *] show "(rest, c # cs) \<in> measure length" by simp
qed simp_all

definition parseShaderLocations :: "string \<Rightarrow> location_info list" where
  "parseShaderLocations shaderCode =
     (case exec_first vertex_params_at shaderCode of
        None \<Rightarrow> []
      | Some captured \<Rightarrow>
          let rawParams = strip_comments captured;
              locations =
                map (\<lambda>(ds, nm, ty).
                       \<lparr>location = parseInt ds, name = nm, type = ty,
                        bytesPerElement = typeToSize ty\<rparr>)
                    (scan_params rawParams)
          in sort_key location locations)"

section \<open>Pipeline construction and the metadata side table\<close>

text \<open>
  A pipeline is the object the device returns; the WeakMap \<open>pipelineMetadata\<close> is keyed
  by the object's identity.  A compute pipeline is registered as \<open>{type: 'compute'}\<close>
  (no \<open>buffers\<close> property), a render pipeline as \<open>{type: 'render', buffers}\<close>.
\<close>

type_synonym pipeline = nat

record pipeline_metadata =
  md_type :: string
  buffers :: "buffer_layout list option"

type_synonym metadata_map = "pipeline \<Rightarrow> pipeline_metadata option"

text \<open>getPipelineType and getPipelineBuffers: optional chaining on the looked-up entry,
  then \<open>||\<close> with the default (the empty string is the only falsy type name; a list is
  always truthy).\<close>

definition getPipelineType :: "metadata_map \<Rightarrow> pipeline \<Rightarrow> string" where
  "getPipelineType pipelineMetadata pipeline =
     (case pipelineMetadata pipeline of
        None \<Rightarrow> ''unknown''
      | Some m \<Rightarrow> if md_type m = [] then ''unknown'' else md_type m)"

definition getPipelineBuffers :: "metadata_map \<Rightarrow> pipeline \<Rightarrow> buffer_layout list" where
  "getPipelineBuffers pipelineMetadata pipeline =
     (case pipelineMetadata pipeline of
        None \<Rightarrow> []
      | Some m \<Rightarrow> (case buffers m of None \<Rightarrow> [] | Some b \<Rightarrow> b))"

text \<open>
  What the collaborators of createPipeline answer in one call: each field is the outcome
  of the call of that name (\<open>Inl\<close>: it throws or rejects; \<open>Inr\<close>: the object it returns).
  \<open>shaderFile\<close> below is the outcome of \<open>loadShaderFromFile(shaderPath)\<close>.
\<close>

record gpu_device =
  createShaderModule :: "error + unit"
  createComputePipelineAsync :: "error + pipeline"
  createRenderPipeline :: "error + pipeline"

text \<open>The try block of createPipeline: it returns the pipeline or the error thrown in
  it, and the side table, which is written only after the device has returned the
  pipeline.\<close>

definition createPipeline_try ::
  "metadata_map \<Rightarrow> gpu_device \<Rightarrow> string \<Rightarrow> error + string \<Rightarrow> (error + pipeline) \<times> metadata_map"
where
  "createPipeline_try pipelineMetadata device type' shaderFile =
     (case shaderFile of
        Inl e \<Rightarrow> (Inl e, pipelineMetadata)
      | Inr code \<Rightarrow>
         (case parseEntryPoints code type' of
            Inl e \<Rightarrow> (Inl e, pipelineMetadata)
          | Inr entries \<Rightarrow>
             (case createShaderModule device of
                Inl e \<Rightarrow> (Inl e, pipelineMetadata)
              | Inr shaderModule \<Rightarrow>
                 if type' = ''compute'' then
                   (case createComputePipelineAsync device of
                      Inl e \<Rightarrow> (Inl e, pipelineMetadata)
                    | Inr pipeline \<Rightarrow>
                        (Inr pipeline,
                         pipelineMetadata(pipeline \<mapsto> \<lparr>md_type = ''compute'', buffers = None\<rparr>)))
                 else
                   let locations = parseShaderLocations code in
                   if locations = [] then (Inl NoVertexAttributes, pipelineMetadata)
                   else
                     (case generateBufferLayouts locations of
                        Inl e \<Rightarrow> (Inl e, pipelineMetadata)
                      | Inr bufs \<Rightarrow>
                          if bufs = [] then (Inl EmptyBufferLayouts, pipelineMetadata)
                          else
                            (case createRenderPipeline device of
                               Inl e \<Rightarrow> (Inl e, pipelineMetadata)
                             | Inr pipeline \<Rightarrow>
                                 (Inr pipeline,
                                  pipelineMetadata(pipeline \<mapsto>
                                    \<lparr>md_type = ''render'', buffers = Some bufs\<rparr>)))))))"

text \<open>
  createPipeline with its catch block.  The block first builds the object it is to log;
  one field of that object is \<open>error instanceof GPUDeviceLostError\<close>, and nothing defines
  that name, so the block throws a ReferenceError before it logs and before its
  \<open>throw error\<close>: every error of the try block reaches the caller as that ReferenceError.
\<close>

definition createPipeline ::
  "metadata_map \<Rightarrow> gpu_device \<Rightarrow> string \<Rightarrow> error + string \<Rightarrow> (error + pipeline) \<times> metadata_map"
where
  "createPipeline pipelineMetadata device type' shaderFile =
     (case createPipeline_try pipelineMetadata device type' shaderFile of
        (Inl error, md) \<Rightarrow> (Inl ReferenceError, md)
      | (Inr pipeline, md) \<Rightarrow> (Inr pipeline, md))"

section \<open>Device buffers and the double-buffered state\<close>

text \<open>
  A buffer is an object of the device (its handle is its identity) holding 32-bit
  elements, all zero when it is created.  The demos fill a buffer through a typed-array
  view of its mapped range; the view has one element per four bytes.
\<close>

unbundle bit_operations_syntax

definition COPY_SRC :: "32 word" where "COPY_SRC = 0x04"
definition COPY_DST :: "32 word" where "COPY_DST = 0x08"
definition VERTEX :: "32 word" where "VERTEX = 0x20"
definition UNIFORM :: "32 word" where "UNIFORM = 0x40"
definition STORAGE :: "32 word" where "STORAGE = 0x80"

record gpu_buffer =
  handle :: nat
  byteSize :: nat
  usage :: "32 word"
  mapped :: bool
  contents :: "32 word list"

text \<open>The allocator: the handle of the next object the device creates.\<close>

type_synonym allocator = nat

definition createBuffer :: "nat \<Rightarrow> 32 word \<Rightarrow> bool \<Rightarrow> allocator \<Rightarrow> gpu_buffer \<times> allocator" where
  "createBuffer sz usg mappedAtCreation next =
     (\<lparr>handle = next, byteSize = sz, usage = usg, mapped = mappedAtCreation,
       contents = replicate (sz div 4) 0\<rparr>, Suc next)"

text \<open>\<open>new Float32Array(buf.getMappedRange()).set(data)\<close> (also with Uint32Array).\<close>

definition set_mapped :: "32 word list \<Rightarrow> gpu_buffer \<Rightarrow> error + gpu_buffer" where
  "set_mapped data buf =
     (if \<not> mapped buf then Inl OperationError
      else if length (contents buf) < length data then Inl RangeError
      else Inr (buf\<lparr>contents := data @ drop (length data) (contents buf)\<rparr>))"

definition unmap :: "gpu_buffer \<Rightarrow> gpu_buffer" where
  "unmap buf = buf\<lparr>mapped := False\<rparr>"

definition byteLength :: "32 word list \<Rightarrow> nat" where
  "byteLength data = 4 * length data"

text \<open>computeBoids.js: \<open>particleBuffers = [0,1].map(() => ...)\<close>; each round creates a
  mapped buffer, writes the seed and unmaps.\<close>

definition createSeededBuffer :: "32 word list \<Rightarrow> allocator \<Rightarrow> (error + gpu_buffer) \<times> allocator" where
  "createSeededBuffer initialParticleData next =
     (let (buf, next') =
            createBuffer (byteLength initialParticleData)
              (STORAGE OR VERTEX OR COPY_DST OR COPY_SRC) True next
      in (case set_mapped initialParticleData buf of
            Inl e \<Rightarrow> (Inl e, next')
          | Inr buf' \<Rightarrow> (Inr (unmap buf'), next')))"

definition createParticleBuffers ::
  "32 word list \<Rightarrow> allocator \<Rightarrow> (error + gpu_buffer list) \<times> allocator" where
  "createParticleBuffers initialParticleData next =
     (case createSeededBuffer initialParticleData next of
        (Inl e, next1) \<Rightarrow> (Inl e, next1)
      | (Inr b0, next1) \<Rightarrow>
         (case createSeededBuffer initialParticleData next1 of
            (Inl e, next2) \<Rightarrow> (Inl e, next2)
          | (Inr b1, next2) \<Rightarrow> (Inr [b0, b1], next2)))"

text \<open>computeBoids-hardcode.js: both buffers are created mapped, then each is written
  and unmapped in turn.\<close>

definition createParticleBuffers_hardcode ::
  "32 word list \<Rightarrow> allocator \<Rightarrow> (error + gpu_buffer list) \<times> allocator" where
  "createParticleBuffers_hardcode initialParticleData next =
     (let (b0, next1) = createBuffer (byteLength initialParticleData) (VERTEX OR STORAGE) True next;
          (b1, next2) = createBuffer (byteLength initialParticleData) (VERTEX OR STORAGE) True next1
      in (case set_mapped initialParticleData b0 of
            Inl e \<Rightarrow> (Inl e, next2)
          | Inr b0' \<Rightarrow>
             (case set_mapped initialParticleData b1 of
                Inl e \<Rightarrow> (Inl e, next2)
              | Inr b1' \<Rightarrow> (Inr [unmap b0', unmap b1'], next2))))"

text \<open>Game of Life: only the first buffer is created mapped; the seed is written into
  it alone.\<close>

definition createCellBuffers ::
  "32 word list \<Rightarrow> allocator \<Rightarrow> (error + gpu_buffer list) \<times> allocator" where
  "createCellBuffers cellData next =
     (let (b0, next1) =
            createBuffer (byteLength cellData) (STORAGE OR VERTEX OR COPY_DST) True next;
          (b1, next2) =
            createBuffer (byteLength cellData) (STORAGE OR VERTEX OR COPY_DST) False next1
      in (case set_mapped cellData b0 of
            Inl e \<Rightarrow> (Inl e, next2)
          | Inr b0' \<Rightarrow> (Inr [unmap b0', b1], next2)))"

text \<open>The bind groups of the compute pass (computeBoids.js): binding 0 is the parameter
  buffer, binding 1 the buffer the shader reads, binding 2 the buffer it writes.\<close>

record bind_group =
  binding0 :: nat
  binding1 :: nat
  binding2 :: nat

definition createParticleBindGroups :: "gpu_buffer \<Rightarrow> gpu_buffer list \<Rightarrow> bind_group list" where
  "createParticleBindGroups simParamBuffer particleBuffers =
     map (\<lambda>i. \<lparr>binding0 = handle simParamBuffer,
                binding1 = handle (particleBuffers ! i),
                binding2 = handle (particleBuffers ! ((i + 1) mod 2))\<rparr>) [0..<2]"

text \<open>The part of \<open>init\<close> (computeBoids.js) that builds the double-buffered state; the
  sprite and the parameter buffer exist already.\<close>

record scene =
  particleBuffers :: "gpu_buffer list"
  particleBindGroups :: "bind_group list"
  spriteVertexBuffer :: gpu_buffer
  simParamBuffer :: gpu_buffer

definition numParticles :: nat where
  "numParticles = 1500"

definition init_scene ::
  "gpu_buffer \<Rightarrow> gpu_buffer \<Rightarrow> 32 word list \<Rightarrow> allocator \<Rightarrow> (error + scene) \<times> allocator" where
  "init_scene sprite simParam initialParticleData next =
     (case createParticleBuffers initialParticleData next of
        (Inl e, next') \<Rightarrow> (Inl e, next')
      | (Inr bufs, next') \<Rightarrow>
          (Inr \<lparr>particleBuffers = bufs,
                particleBindGroups = createParticleBindGroups simParam bufs,
                spriteVertexBuffer = sprite,
                simParamBuffer = simParam\<rparr>, next'))"

section \<open>Failure reporting\<close>

text \<open>
  A thrown or rejected value, as far as \<open>error.message\<close> can tell: an object with a
  message, a value without one (the template prints "undefined"), or null/undefined
  (reading the property throws a TypeError, written \<open>ErrorObject ''TypeError''\<close>).
\<close>

datatype thrown = ErrorObject string | NoMessage | Nullish

text \<open>
  \<open>fail\<close> of the utilities that computeBoids.js imports (the file that also exports
  createPipeline): it logs to the console and throws, on every call.  The state is the
  list of the logged messages.
\<close>

definition fail :: "string \<Rightarrow> string list \<Rightarrow> thrown \<times> string list" where
  "fail message console = (ErrorObject message, console @ [message])"

text \<open>
  \<open>fail\<close> of the other copy of the utilities (used by the Game of Life and the
  hard-coded boids): the output is created on the first call, a dialog when there is a
  document, the console otherwise.  The dialog shows a message only while it is not
  open.  \<open>reports\<close> lists what became visible: console lines and dialogs shown.
\<close>

datatype error_output = ConsoleOutput | DialogOutput

datatype report = ConsoleError string | ModalShown string

record error_ui =
  errorOutput :: "error_output option"
  dialogOpen :: bool
  dialogText :: string
  reports :: "report list"

definition createErrorOutput :: "bool \<Rightarrow> error_ui \<Rightarrow> error_ui" where
  "createErrorOutput hasDocument ui =
     (if \<not> hasDocument then ui\<lparr>errorOutput := Some ConsoleOutput\<rparr>
      else ui\<lparr>errorOutput := Some DialogOutput, dialogOpen := False, dialogText := []\<rparr>)"

definition show_message :: "string \<Rightarrow> error_ui \<Rightarrow> error_ui" where
  "show_message msg ui =
     (case errorOutput ui of
        Some DialogOutput \<Rightarrow>
          if \<not> dialogOpen ui
          then ui\<lparr>dialogText := msg, dialogOpen := True, reports := reports ui @ [ModalShown msg]\<rparr>
          else ui
      | _ \<Rightarrow> ui\<lparr>reports := reports ui @ [ConsoleError msg]\<rparr>)"

definition fail_dialog :: "bool \<Rightarrow> string \<Rightarrow> error_ui \<Rightarrow> thrown \<times> error_ui" where
  "fail_dialog hasDocument message ui =
     (let ui1 = (if errorOutput ui = None then createErrorOutput hasDocument ui else ui)
      in (ErrorObject message, show_message message ui1))"

text \<open>The OK button of the dialog.\<close>

definition closeBtn_onclick :: "error_ui \<Rightarrow> error_ui" where
  "closeBtn_onclick ui = ui\<lparr>dialogOpen := False\<rparr>"

text \<open>The state of the module before the first failure.\<close>

definition ui0 :: error_ui where
  "ui0 = \<lparr>errorOutput = None, dialogOpen = False, dialogText = [], reports = []\<rparr>"

text \<open>
  The two callbacks that quitIfWebGPUNotAvailable registers on the device (the same in
  both copies of the utilities): each formats the notification and calls the
  \<open>fail\<close> of its copy.
\<close>

datatype notification = DeviceLost string string | UncapturedError string

definition notification_text :: "notification \<Rightarrow> string" where
  "notification_text n =
     (case n of
        DeviceLost reason message \<Rightarrow>
          ''Device lost ('' @ [CHR 0x22] @ reason @ [CHR 0x22] @ ''):'' @ [CHR 0x0A] @ message
      | UncapturedError message \<Rightarrow> ''Uncaptured error:'' @ [CHR 0x0A] @ message)"

definition on_notification :: "notification \<Rightarrow> string list \<Rightarrow> thrown \<times> string list" where
  "on_notification n console = fail (notification_text n) console"

definition on_notification_dialog :: "bool \<Rightarrow> notification \<Rightarrow> error_ui \<Rightarrow> thrown \<times> error_ui" where
  "on_notification_dialog hasDocument n ui = fail_dialog hasDocument (notification_text n) ui"

section \<open>The frame loop of computeBoids.js\<close>

text \<open>
  The variables of \<open>init\<close> that the loop and the error handler share, and the effects
  they have on the outside: the batches submitted to the queue, the animation frames
  requested (the handles are 1, 2, ...) and cancelled, the buffers destroyed, whether
  the canvas context is still configured, and the console lines of \<open>fail\<close>.
  \<open>t\<close> is a JavaScript number that starts at 0 and grows by one per submitted frame;
  \<open>nat\<close> agrees with it below \<open>2^53\<close>.  \<open>resources\<close> holds the handles of the buffers
  assigned so far (the pipelines have nothing to destroy, and the \<open>device\<close> variable
  of the handler is never assigned).  \<open>logFPS\<close>, which keeps counters of its own and
  prints, is left out of \<open>frame\<close>.
\<close>

record command_batch =
  computeBindGroup :: bind_group
  workgroups :: nat
  vertexBuffer0 :: nat
  vertexBuffer1 :: nat
  drawVertices :: nat
  drawInstances :: nat

record app =
  shouldContinueRendering :: bool
  errorOccurred :: bool
  animationId :: "nat option"
  t :: nat
  submitted :: "command_batch list"
  requested :: nat
  cancelled :: "nat list"
  resources :: "nat list"
  destroyed :: "nat list"
  contextConfigured :: bool
  console :: "string list"

definition app0 :: "scene \<Rightarrow> app" where
  "app0 sc =
     \<lparr>shouldContinueRendering = True, errorOccurred = False, animationId = None, t = 0,
      submitted = [], requested = 0, cancelled = [],
      resources = map handle (particleBuffers sc) @
                  [handle (spriteVertexBuffer sc), handle (simParamBuffer sc)],
      destroyed = [], contextConfigured = True, console = []\<rparr>"

text \<open>handleCriticalError returns the exception that leaves it, if any: \<open>fail\<close> always
  throws, so the handler returns normally only when the guard swallowed the call.\<close>

definition handleCriticalError :: "thrown \<Rightarrow> app \<Rightarrow> thrown option \<times> app" where
  "handleCriticalError error s =
     (if errorOccurred s then (None, s)
      else
        let s1 = s\<lparr>errorOccurred := True, shouldContinueRendering := False\<rparr>;
            s2 = (case animationId s1 of
                    Some i \<Rightarrow> s1\<lparr>cancelled := cancelled s1 @ [i], animationId := None\<rparr>
                  | None \<Rightarrow> s1);
            s3 = s2\<lparr>destroyed := destroyed s2 @ resources s2, contextConfigured := False\<rparr>
        in (case error of
              Nullish \<Rightarrow> (Some (ErrorObject ''TypeError''), s3)
            | NoMessage \<Rightarrow>
                (let (ex, con) = fail (''Fatal error: '' @ ''undefined'') (console s3)
                 in (Some ex, s3\<lparr>console := con\<rparr>))
            | ErrorObject message \<Rightarrow>
                (let (ex, con) = fail (''Fatal error: '' @ message) (console s3)
                 in (Some ex, s3\<lparr>console := con\<rparr>))))"

text \<open>
  One call of \<open>frame\<close>.  The try block first acquires the view of the current surface
  texture, which throws when the context is not configured (\<open>SurfaceThrows\<close>; the catch
  block hands the exception to handleCriticalError).  The calls that follow encode the
  two passes and submit the batch; for the arguments of the loop they record their
  errors for the device to report and do not throw.
\<close>

datatype frame_device = DeviceOk | SurfaceThrows thrown

definition frame_batch :: "scene \<Rightarrow> nat \<Rightarrow> command_batch" where
  "frame_batch sc n =
     \<lparr>computeBindGroup = particleBindGroups sc ! (n mod 2),
      workgroups = (numParticles + 63) div 64,
      vertexBuffer0 = handle (particleBuffers sc ! ((n + 1) mod 2)),
      vertexBuffer1 = handle (spriteVertexBuffer sc),
      drawVertices = 3,
      drawInstances = numParticles\<rparr>"

definition frame :: "scene \<Rightarrow> frame_device \<Rightarrow> app \<Rightarrow> thrown option \<times> app" where
  "frame sc dev s =
     (if \<not> shouldContinueRendering s \<or> errorOccurred s then (None, s)
      else
        (case dev of
           SurfaceThrows e \<Rightarrow> handleCriticalError e s
         | DeviceOk \<Rightarrow>
             let s1 = s\<lparr>submitted := submitted s @ [frame_batch sc (t s)], t := t s + 1\<rparr>
             in if shouldContinueRendering s1 \<and> \<not> errorOccurred s1
                then (None, s1\<lparr>requested := requested s1 + 1,
                                animationId := Some (requested s1 + 1)\<rparr>)
                else (None, s1)))"

text \<open>
  What can happen to a running demo: the display refresh resumes the loop (a call of
  \<open>frame\<close>), or one of the listeners (window error, unhandled rejection, unload) calls
  handleCriticalError.
\<close>

datatype event = Resume frame_device | Failure thrown

definition step :: "scene \<Rightarrow> app \<Rightarrow> event \<Rightarrow> app" where
  "step sc s ev =
     (case ev of
        Resume dev \<Rightarrow> snd (frame sc dev s)
      | Failure e \<Rightarrow> snd (handleCriticalError e s))"

definition run :: "scene \<Rightarrow> app \<Rightarrow> event list \<Rightarrow> app" where
  "run sc s evs = foldl (step sc) s evs"

text \<open>The guard of \<open>frame\<close>: the running flag is off.\<close>

definition stopped :: "app \<Rightarrow> bool" where
  "stopped s = (\<not> shouldContinueRendering s \<or> errorOccurred s)"

text \<open>The state after \<open>n\<close> completed frames, counted from the start of the demo.\<close>

definition after_frames :: "scene \<Rightarrow> nat \<Rightarrow> app" where
  "after_frames sc n = ((\<lambda>s. snd (frame sc DeviceOk s)) ^^ n) (app0 sc)"

section \<open>Sample inputs\<close>

text \<open>Shader texts in the shape of the boids shaders: a sprite shader with the vertex
  locations 0, 1, 2, the same with a fourth vertex location, and a compute shader.\<close>

definition sprite_shader :: string where
  "sprite_shader =
     ''@vertex'' @ [CHR 0x0A] @
     ''fn vert_main(@location(0) a_particlePos : vec2f, '' @
     ''@location(1) a_particleVel : vec2f, @location(2) a_pos : vec2f) -> VertexOutput { }'' @
     [CHR 0x0A] @
     ''@fragment'' @ [CHR 0x0A] @
     ''fn frag_main(@location(4) color : vec4f) -> @location(0) vec4f { return color; }''"

definition sprite_shader4 :: string where
  "sprite_shader4 =
     ''@vertex'' @ [CHR 0x0A] @
     ''fn vert_main(@location(0) a_particlePos : vec2f, '' @
     ''@location(1) a_particleVel : vec2f, @location(2) a_pos : vec2f, '' @
     ''@location(3) a_tint : vec4f) -> VertexOutput { }'' @
     [CHR 0x0A] @
     ''@fragment'' @ [CHR 0x0A] @
     ''fn frag_main(@location(4) color : vec4f) -> @location(0) vec4f { return color; }''"

definition update_shader :: string where
  "update_shader =
     ''@compute @workgroup_size(64)'' @ [CHR 0x0A] @
     ''fn main(@builtin(global_invocation_id) id : vec3u) { }''"

definition sample_device :: gpu_device where
  "sample_device =
     \<lparr>createShaderModule = Inr (), createComputePipelineAsync = Inr 1,
      createRenderPipeline = Inr 2\<rparr>"

text \<open>A sprite shader that declares location 0 twice, and a vertex shader whose
  attribute types are outside the size table.\<close>

definition sprite_shader_dup :: string where
  "sprite_shader_dup =
     ''@vertex'' @ [CHR 0x0A] @
     ''fn vert_main(@location(0) a_particlePos : vec2f, @location(0) a_copy : vec2f, '' @
     ''@location(1) a_particleVel : vec2f, @location(2) a_pos : vec2f) -> VertexOutput { }'' @
     [CHR 0x0A] @
     ''@fragment'' @ [CHR 0x0A] @
     ''fn frag_main(@location(4) color : vec4f) -> @location(0) vec4f { return color; }''"

definition matrix_shader :: string where
  "matrix_shader =
     ''@vertex fn vs(@location(0) m : mat2x2f, @location(1) k : i32) '' @
     ''-> @builtin(position) vec4f { }''"

text \<open>A vertex shader with the locations 0, 1, 2 under other names and types.\<close>

definition renamed_shader :: string where
  "renamed_shader =
     ''@vertex fn vs(@location(0) p : vec4f, @location(1) q : i32, '' @
     ''@location(2) r : mat2x2f) -> @builtin(position) vec4f { }''"

text \<open>A scene with the particle buffers 2 and 3, the sprite buffer 0 and the parameter
  buffer 1.\<close>

definition sample_scene :: scene where
  "sample_scene =
     \<lparr>particleBuffers =
        [\<lparr>handle = 2, byteSize = 16, usage = STORAGE OR VERTEX OR COPY_DST OR COPY_SRC,
          mapped = False, contents = [1, 2, 3, 4]\<rparr>,
         \<lparr>handle = 3, byteSize = 16, usage = STORAGE OR VERTEX OR COPY_DST OR COPY_SRC,
          mapped = False, contents = [1, 2, 3, 4]\<rparr>],
      particleBindGroups =
        [\<lparr>binding0 = 1, binding1 = 2, binding2 = 3\<rparr>,
         \<lparr>binding0 = 1, binding1 = 3, binding2 = 2\<rparr>],
      spriteVertexBuffer =
        \<lparr>handle = 0, byteSize = 24, usage = VERTEX, mapped = False,
         contents = [0, 0, 0, 0, 0, 0]\<rparr>,
      simParamBuffer =
        \<lparr>handle = 1, byteSize = 28, usage = UNIFORM OR COPY_DST, mapped = False,
         contents = [0, 0, 0, 0, 0, 0, 0]\<rparr>\<rparr>"

text \<open>A render shader with a comment between the fragment marker and its function.\<close>

definition commented_shader :: string where
  "commented_shader =
     ''@vertex fn vs() -> @builtin(position) vec4f { } '' @
     ''@fragment /* colour */ fn fs() -> @location(0) vec4f { }''"



section \<open>Buffer layouts: lemmas\<close>

lemma locations_valid_iff:
  "locations_valid ns \<longleftrightarrow> {0, 1, 2} \<subseteq> set ns"
  by (auto simp: locations_valid_def expectedLocations_def)

lemma generateBufferLayouts_ok:
  assumes "locations_valid (map location locs)"
  shows "generateBufferLayouts locs =
     Inr [\<lparr>arrayStride = 16, stepMode = ''instance'',
           attributes = map (\<lambda>n. \<lparr>shaderLocation = n, offset = n * 8, format = ''float32x2''\<rparr>)
                            (filter (\<lambda>n. n < 2) (map location locs))\<rparr>,
          \<lparr>arrayStride = 8, stepMode = ''vertex'',
           attributes = [\<lparr>shaderLocation = 2, offset = 0, format = ''float32x2''\<rparr>]\<rparr>]"
proof -
  have "map (\<lambda>attr. \<lparr>shaderLocation = location attr, offset = location attr * 8,
                               format = ''float32x2''\<rparr>) (filter (\<lambda>l. location l < 2) locs)
      = map (\<lambda>n. \<lparr>shaderLocation = n, offset = n * 8, format = ''float32x2''\<rparr>)
            (filter (\<lambda>n. n < 2) (map location locs))"
    by (induction locs) auto
  then show ?thesis
    using assms by (simp add: generateBufferLayouts_def Let_def)
qed

lemma generateBufferLayouts_fails:
  assumes "\<not> locations_valid (map location locs)"
  shows "generateBufferLayouts locs = Inl (UnsupportedVertexLayout (map location locs))"
  using assms by (simp add: generateBufferLayouts_def Let_def)

lemma low_locations:
  fixes ns :: "nat list"
  assumes "sorted ns" "distinct ns" "0 \<in> set ns" "1 \<in> set ns"
  shows "filter (\<lambda>n. n < 2) ns = [0, 1]"
proof -
  have "sorted (filter (\<lambda>n. n < 2) ns)" using assms(1) by (rule sorted_wrt_filter)
  moreover have "distinct (filter (\<lambda>n. n < 2) ns)" using assms(2) by simp
  moreover have "set (filter (\<lambda>n. n < 2) ns) = set [0, 1::nat]"
    using assms(3,4) by auto
  moreover have "sorted [0, 1::nat]" "distinct [0, 1::nat]" by simp_all
  ultimately show ?thesis
    by (metis sorted_distinct_set_unique)
qed

lemma parseShaderLocations_sorted: "sorted (map location (parseShaderLocations code))"
  by (simp add: parseShaderLocations_def Let_def split: option.splits)


text \<open>Every error of createPipeline is the ReferenceError of its catch block, and leaves
  the side table as it was; a list of attributes that fails the validation is one such
  case.\<close>

lemma createPipeline_error:
  assumes "fst (createPipeline md device type' shaderFile) = Inl e"
  shows "e = ReferenceError" and "snd (createPipeline md device type' shaderFile) = md"
  using assms
  by (auto simp: createPipeline_def createPipeline_try_def Let_def
           split: sum.splits prod.splits if_splits)

lemma createPipeline_try_invalid_locations:
  assumes "shaderFile = Inr code"
    and "parseEntryPoints code ''render'' = Inr entries"
    and "createShaderModule device = Inr m"
    and "parseShaderLocations code \<noteq> []"
    and "\<not> locations_valid (map location (parseShaderLocations code))"
  shows "createPipeline_try md device ''render'' shaderFile =
           (Inl (UnsupportedVertexLayout (map location (parseShaderLocations code))), md)"
    and "createPipeline md device ''render'' shaderFile = (Inl ReferenceError, md)"
  using assms generateBufferLayouts_fails [OF assms(5)]
  by (simp_all add: createPipeline_def createPipeline_try_def Let_def)

lemma generateBufferLayouts_fixed:
  assumes ok: "locations_valid (map location locs)"
    and s: "sorted (map location locs)" and d: "distinct (map location locs)"
  shows "generateBufferLayouts locs = Inr boids_layouts"
proof -
  have "0 \<in> set (map location locs)" "1 \<in> set (map location locs)"
    using ok by (auto simp: locations_valid_iff)
  then have "filter (\<lambda>n. n < 2) (map location locs) = [0, 1]"
    using s d by (intro low_locations)
  then show ?thesis
    using generateBufferLayouts_ok [OF ok] by (simp add: boids_layouts_def)
qed

text \<open>The parser hands its attributes over in ascending order of location, so for the
  lists that reach generateBufferLayouts only the uniqueness of the locations is left
  to ask for.\<close>

lemma parsed_layouts_fixed:
  assumes "locations_valid (map location (parseShaderLocations code))"
    and "distinct (map location (parseShaderLocations code))"
  shows "generateBufferLayouts (parseShaderLocations code) = Inr boids_layouts"
  by (rule generateBufferLayouts_fixed [OF assms(1) parseShaderLocations_sorted assms(2)])

section \<open>Buffer layouts: the claims\<close>




text \<open>
  C1.  The validation of generateBufferLayouts only asks that 0, 1 and 2 are among the
  declared locations.  A shader that declares the locations 0, 1, 2 and 3 is therefore
  not rejected: the layouts are generated (location 3 is left out of them) and
  createPipeline returns the pipeline.
\<close>

theorem superset_of_locations_accepted:
  "map location (parseShaderLocations sprite_shader4) = [0, 1, 2, 3] \<and>
   generateBufferLayouts (parseShaderLocations sprite_shader4) = Inr boids_layouts \<and>
   fst (createPipeline Map.empty sample_device ''render'' (Inr sprite_shader4)) = Inr 2"
  by code_simp

text \<open>The part of C1 that holds: a list that misses one of the locations 0, 1, 2 is
  rejected, whatever else it declares.\<close>

lemma missing_location_rejected:
  assumes "l \<in> {0, 1, 2}" and "l \<notin> set (map location locs)"
  shows "generateBufferLayouts locs = Inl (UnsupportedVertexLayout (map location locs))"
proof (rule generateBufferLayouts_fails)
  show "\<not> locations_valid (map location locs)"
    using assms by (auto simp: locations_valid_iff)
qed

text \<open>
  C9.  The layouts are a function of the sequence of declared locations.  The claim, for
  any two lists that pass the validation, fails when a location below 2 is declared
  twice: the sprite shader and its variant with two parameters at location 0 both pass,
  and their layouts differ.
\<close>

theorem layouts_differ_counterexample:
  "generateBufferLayouts (parseShaderLocations sprite_shader) = Inr boids_layouts \<and>
   generateBufferLayouts (parseShaderLocations sprite_shader_dup) =
     Inr [\<lparr>arrayStride = 16, stepMode = ''instance'',
           attributes = [\<lparr>shaderLocation = 0, offset = 0, format = ''float32x2''\<rparr>,
                         \<lparr>shaderLocation = 0, offset = 0, format = ''float32x2''\<rparr>,
                         \<lparr>shaderLocation = 1, offset = 8, format = ''float32x2''\<rparr>]\<rparr>,
          \<lparr>arrayStride = 8, stepMode = ''vertex'',
           attributes = [\<lparr>shaderLocation = 2, offset = 0, format = ''float32x2''\<rparr>]\<rparr>] \<and>
   generateBufferLayouts (parseShaderLocations sprite_shader) \<noteq>
     generateBufferLayouts (parseShaderLocations sprite_shader_dup)"
  by code_simp

text \<open>Names and types never matter: two lists with the same sequence of locations get
  the same result.\<close>

lemma layouts_ignore_names_and_types:
  assumes "map location locs1 = map location locs2"
  shows "generateBufferLayouts locs1 = generateBufferLayouts locs2"
proof (cases "locations_valid (map location locs1)")
  case True
  then show ?thesis
    using generateBufferLayouts_ok [of locs1] generateBufferLayouts_ok [of locs2] assms by simp
next
  case False
  then show ?thesis
    using generateBufferLayouts_fails [of locs1] generateBufferLayouts_fails [of locs2] assms
    by simp
qed

text \<open>
  C9, as amended.  For any two attribute lists that pass the validation and list
  pairwise distinct locations in ascending order (the order in which
  parseShaderLocations returns them), the layouts are equal: the fixed pair whose
  instance attributes are float32x2 at offset 8 times the location and whose vertex
  attribute is float32x2 at offset 0, whatever the names and the types.
\<close>

theorem layouts_fixed_pair:
  assumes "locations_valid (map location locs1)"
    and "locations_valid (map location locs2)"
    and "sorted (map location locs1)" and "distinct (map location locs1)"
    and "sorted (map location locs2)" and "distinct (map location locs2)"
  shows "generateBufferLayouts locs1 = generateBufferLayouts locs2 \<and>
         generateBufferLayouts locs1 = Inr boids_layouts"
  using generateBufferLayouts_fixed [OF assms(1,3,4)] generateBufferLayouts_fixed [OF assms(2,5,6)]
  by simp

theorem layouts_fixed_pair_witness:
  "locations_valid (map location (parseShaderLocations sprite_shader)) \<and>
   locations_valid (map location (parseShaderLocations renamed_shader)) \<and>
   map name (parseShaderLocations renamed_shader) = [''p'', ''q'', ''r''] \<and>
   map type (parseShaderLocations renamed_shader) = [''vec4f'', ''i32'', ''mat2x2f''] \<and>
   generateBufferLayouts (parseShaderLocations sprite_shader) =
     generateBufferLayouts (parseShaderLocations renamed_shader) \<and>
   generateBufferLayouts (parseShaderLocations sprite_shader) = Inr boids_layouts"
proof -
  let ?l1 = "parseShaderLocations sprite_shader"
  let ?l2 = "parseShaderLocations renamed_shader"
  have m1: "map location ?l1 = [0, 1, 2]" by code_simp
  have m2: "map location ?l2 = [0, 1, 2]" by code_simp
  have n: "map name ?l2 = [''p'', ''q'', ''r'']"
    "map type ?l2 = [''vec4f'', ''i32'', ''mat2x2f'']" by code_simp+
  have v1: "locations_valid (map location ?l1)"
    unfolding m1 by (simp add: locations_valid_iff)
  have v2: "locations_valid (map location ?l2)"
    unfolding m2 by (simp add: locations_valid_iff)
  have s1: "sorted (map location ?l1)" and d1: "distinct (map location ?l1)"
    unfolding m1 by simp_all
  have s2: "sorted (map location ?l2)" and d2: "distinct (map location ?l2)"
    unfolding m2 by simp_all
  from layouts_fixed_pair [OF v1 v2 s1 d1 s2 d2] v1 v2 n show ?thesis by blast
qed

section \<open>Type tables: the claim\<close>

lemma parseShaderLocations_bytesPerElement:
  assumes "l \<in> set (parseShaderLocations code)"
  shows "bytesPerElement l = typeToSize (type l)"
proof (cases "exec_first vertex_params_at code")
  case None
  with assms show ?thesis by (simp add: parseShaderLocations_def)
next
  case (Some captured)
  with assms obtain ds nm ty where "l = \<lparr>location = parseInt ds, name = nm, type = ty,
      bytesPerElement = typeToSize ty\<rparr>"
    by (auto simp: parseShaderLocations_def Let_def)
  then show ?thesis by simp
qed

lemma sizes_keys: "set (map fst sizes) \<subseteq> set (map fst typeMap)"
  by (simp add: sizes_def typeMap_def)

text \<open>
  C4.  An attribute whose type name is in no table is not given the byte size 4: the
  size table defaults to 0.  The matrix shader declares \<open>mat2x2f\<close> at location 0; the
  parser records 0 bytes for it (and for \<open>i32\<close>, which only the format table knows).  A
  type name that \<open>Object.prototype\<close> knows is not mapped to float32 either.
\<close>

theorem unknown_type_size_counterexample:
  "map type (parseShaderLocations matrix_shader) = [''mat2x2f'', ''i32''] \<and>
   ''mat2x2f'' \<notin> set (map fst typeMap) \<and>
   typeToFormat ''mat2x2f'' = Val ''float32'' \<and>
   map bytesPerElement (parseShaderLocations matrix_shader) = [Val 0, Val 0] \<and>
   typeToSize ''mat2x2f'' \<noteq> Val 4 \<and>
   typeToFormat ''constructor'' = ProtoMember ''constructor''"
  by code_simp

text \<open>
  C4, as amended.  For every attribute that the parser returns whose type name is in
  neither table and is not the name of a member of \<open>Object.prototype\<close>, the mapped
  format is float32, a format of 4 bytes, and the recorded byte size is 0.  (The parser
  itself has no failing branch: it returns a list for every text.)
\<close>

theorem unknown_type_defaults:
  assumes "l \<in> set (parseShaderLocations code)"
    and "type l \<notin> set (map fst typeMap)"
    and "type l \<notin> set objectPrototypeKeys"
  shows "typeToFormat (type l) = Val ''float32'' \<and> formatSize ''float32'' = 4 \<and>
         bytesPerElement l = Val 0"
proof -
  have f: "map_of typeMap (type l) = None"
    using assms(2) by (simp add: map_of_eq_None_iff)
  have "type l \<notin> set (map fst sizes)"
    using assms(2) sizes_keys by blast
  then have s: "map_of sizes (type l) = None"
    by (simp add: map_of_eq_None_iff)
  have fs: "formatSize ''float32'' = 4" by code_simp
  show ?thesis
    using f s fs assms(3) parseShaderLocations_bytesPerElement [OF assms(1)]
    by (simp add: typeToFormat_def typeToSize_def lookup_or_def)
qed

theorem unknown_type_defaults_witness:
  "\<lparr>location = 0, name = ''m'', type = ''mat2x2f'', bytesPerElement = Val 0\<rparr>
     \<in> set (parseShaderLocations matrix_shader) \<and>
   ''mat2x2f'' \<notin> set (map fst typeMap) \<and>
   ''mat2x2f'' \<notin> set objectPrototypeKeys \<and>
   typeToFormat ''mat2x2f'' = Val ''float32'' \<and> formatSize ''float32'' = 4"
proof -
  let ?l = "\<lparr>location = 0, name = ''m'', type = ''mat2x2f'', bytesPerElement = Val (0::nat)\<rparr>"
  have h1: "?l \<in> set (parseShaderLocations matrix_shader)" by code_simp
  have h2: "type ?l \<notin> set (map fst typeMap)" by code_simp
  have h3: "type ?l \<notin> set objectPrototypeKeys" by code_simp
  from unknown_type_defaults [OF h1 h2 h3] h1 h2 h3 show ?thesis by simp
qed

section \<open>The metadata side table: the claim\<close>

lemma createPipeline_compute:
  assumes "createPipeline md device ''compute'' shaderFile = (Inr p, md')"
  shows "md' = md(p \<mapsto> \<lparr>md_type = ''compute'', buffers = None\<rparr>)"
  using assms
  by (auto simp: createPipeline_def createPipeline_try_def split: sum.splits prod.splits)

text \<open>
  C10.  A compute pipeline that createPipeline returns is registered with the type
  'compute', so getPipelineType does not answer 'unknown' for it.
\<close>

theorem compute_pipeline_type_counterexample:
  "fst (createPipeline Map.empty sample_device ''compute'' (Inr update_shader)) = Inr 1 \<and>
   getPipelineType
     (snd (createPipeline Map.empty sample_device ''compute'' (Inr update_shader))) 1
     = ''compute'' \<and>
   getPipelineType
     (snd (createPipeline Map.empty sample_device ''compute'' (Inr update_shader))) 1
     \<noteq> ''unknown''"
  by code_simp

text \<open>
  C10, as amended.  Both lookups are total.  For a pipeline that the side table does not
  hold (a foreign object), getPipelineBuffers returns the empty list and getPipelineType
  returns 'unknown'.  For a compute pipeline returned by createPipeline,
  getPipelineBuffers returns the empty list and getPipelineType returns 'compute'.
\<close>

theorem metadata_lookup:
  "(md p = None \<longrightarrow>
      getPipelineBuffers md p = [] \<and> getPipelineType md p = ''unknown'') \<and>
   (createPipeline md device ''compute'' shaderFile = (Inr q, md') \<longrightarrow>
      getPipelineBuffers md' q = [] \<and> getPipelineType md' q = ''compute'')"
proof (intro conjI impI)
  assume "md p = None"
  then show "getPipelineBuffers md p = []" and "getPipelineType md p = ''unknown''"
    by (simp_all add: getPipelineBuffers_def getPipelineType_def)
next
  assume "createPipeline md device ''compute'' shaderFile = (Inr q, md')"
  then have md': "md' = md(q \<mapsto> \<lparr>md_type = ''compute'', buffers = None\<rparr>)"
    by (rule createPipeline_compute)
  show "getPipelineBuffers md' q = []" and "getPipelineType md' q = ''compute''"
    unfolding md' by (simp_all add: getPipelineBuffers_def getPipelineType_def)
qed

theorem metadata_lookup_witness:
  "getPipelineBuffers Map.empty 5 = [] \<and> getPipelineType Map.empty 5 = ''unknown'' \<and>
   fst (createPipeline Map.empty sample_device ''compute'' (Inr update_shader)) = Inr 1 \<and>
   getPipelineBuffers
     (snd (createPipeline Map.empty sample_device ''compute'' (Inr update_shader))) 1 = [] \<and>
   getPipelineType
     (snd (createPipeline Map.empty sample_device ''compute'' (Inr update_shader))) 1
     = ''compute''"
proof -
  let ?r = "createPipeline Map.empty sample_device ''compute'' (Inr update_shader)"
  have f: "fst ?r = Inr 1" by code_simp
  then have h: "?r = (Inr 1, snd ?r)" by (metis prod.collapse)
  have e: "(Map.empty :: metadata_map) 5 = None" by simp
  from metadata_lookup [where md = Map.empty and p = 5 and device = sample_device
      and shaderFile = "Inr update_shader" and q = 1 and md' = "snd ?r"]
    h e f
  show ?thesis by simp
qed

section \<open>Seeding of the double-buffered state\<close>

lemma byteLength_div: "byteLength seed div 4 = length seed"
  by (simp add: byteLength_def)

lemma set_mapped_fresh:
  "set_mapped seed (fst (createBuffer (byteLength seed) usg True next)) =
     Inr \<lparr>handle = next, byteSize = byteLength seed, usage = usg, mapped = True, contents = seed\<rparr>"
  by (simp add: set_mapped_def createBuffer_def byteLength_div)

lemma createSeededBuffer_eq:
  "createSeededBuffer seed next =
     (Inr \<lparr>handle = next, byteSize = byteLength seed,
           usage = STORAGE OR VERTEX OR COPY_DST OR COPY_SRC, mapped = False, contents = seed\<rparr>,
      Suc next)"
  using set_mapped_fresh [of seed "STORAGE OR VERTEX OR COPY_DST OR COPY_SRC" "next"]
  by (simp add: createSeededBuffer_def createBuffer_def unmap_def)

lemma createParticleBuffers_eq:
  "createParticleBuffers seed next =
     (Inr [\<lparr>handle = next, byteSize = byteLength seed,
            usage = STORAGE OR VERTEX OR COPY_DST OR COPY_SRC, mapped = False, contents = seed\<rparr>,
           \<lparr>handle = Suc next, byteSize = byteLength seed,
            usage = STORAGE OR VERTEX OR COPY_DST OR COPY_SRC, mapped = False, contents = seed\<rparr>],
      Suc (Suc next))"
  by (simp add: createParticleBuffers_def createSeededBuffer_eq)

lemma createParticleBuffers_hardcode_eq:
  "createParticleBuffers_hardcode seed next =
     (Inr [\<lparr>handle = next, byteSize = byteLength seed,
            usage = VERTEX OR STORAGE, mapped = False, contents = seed\<rparr>,
           \<lparr>handle = Suc next, byteSize = byteLength seed,
            usage = VERTEX OR STORAGE, mapped = False, contents = seed\<rparr>],
      Suc (Suc next))"
  using set_mapped_fresh [of seed "VERTEX OR STORAGE" "next"]
    set_mapped_fresh [of seed "VERTEX OR STORAGE" "Suc next"]
  by (simp add: createParticleBuffers_hardcode_def createBuffer_def unmap_def)

lemma createCellBuffers_eq:
  "createCellBuffers seed next =
     (Inr [\<lparr>handle = next, byteSize = byteLength seed,
            usage = STORAGE OR VERTEX OR COPY_DST, mapped = False, contents = seed\<rparr>,
           \<lparr>handle = Suc next, byteSize = byteLength seed,
            usage = STORAGE OR VERTEX OR COPY_DST, mapped = False,
            contents = replicate (length seed) 0\<rparr>],
      Suc (Suc next))"
  using set_mapped_fresh [of seed "STORAGE OR VERTEX OR COPY_DST" "next"]
  by (simp add: createCellBuffers_def createBuffer_def unmap_def byteLength_div)

text \<open>
  C6.  The Game of Life writes its seed into the first buffer only: the second buffer is
  created unmapped and keeps the zeros of its creation.  With the one-cell seed [1] the
  two buffers hold [1] and [0].
\<close>

theorem cell_buffers_counterexample:
  "map contents (case fst (createCellBuffers [1] 0) of Inr bs \<Rightarrow> bs | Inl e \<Rightarrow> [])
     = [[1], [0]]"
  by (simp add: createCellBuffers_eq)

text \<open>
  C6, as amended.  The capacity is always the byte length of the seed.  For every seed,
  the two particle buffers of the boids demo (in both variants of its construction) are
  distinct buffers of that capacity that both hold the seed, so the two states are
  equal before the first frame.  The Game of
  Life holds the seed in buffer 0 and zeros in buffer 1.  None of the three
  constructions fails.
\<close>

theorem seeded_buffers:
  "(\<exists>b0 b1. createParticleBuffers seed next = (Inr [b0, b1], next + 2) \<and>
       contents b0 = seed \<and> contents b1 = seed \<and> handle b0 \<noteq> handle b1 \<and>
       byteSize b0 = byteLength seed \<and> byteSize b1 = byteLength seed) \<and>
   (\<exists>b0 b1. createParticleBuffers_hardcode seed next = (Inr [b0, b1], next + 2) \<and>
       contents b0 = seed \<and> contents b1 = seed \<and> handle b0 \<noteq> handle b1 \<and>
       byteSize b0 = byteLength seed \<and> byteSize b1 = byteLength seed) \<and>
   (\<exists>b0 b1. createCellBuffers seed next = (Inr [b0, b1], next + 2) \<and>
       contents b0 = seed \<and> contents b1 = replicate (length seed) 0 \<and>
       handle b0 \<noteq> handle b1 \<and>
       byteSize b0 = byteLength seed \<and> byteSize b1 = byteLength seed)"
  by (simp add: createParticleBuffers_eq createParticleBuffers_hardcode_eq createCellBuffers_eq)

theorem seeded_buffers_witness:
  "(\<exists>b0 b1. createParticleBuffers [1, 2, 3, 4] 0 = (Inr [b0, b1], 2) \<and>
       contents b0 = [1, 2, 3, 4] \<and> contents b1 = [1, 2, 3, 4]) \<and>
   (\<exists>b0 b1. createCellBuffers [1, 0, 1, 1] 0 = (Inr [b0, b1], 2) \<and>
       contents b0 = [1, 0, 1, 1] \<and> contents b1 = [0, 0, 0, 0])"
  using seeded_buffers [of "[1, 2, 3, 4]" 0] seeded_buffers [of "[1, 0, 1, 1]" 0]
  by (auto simp: numeral_eq_Suc)

section \<open>The frame loop: lemmas\<close>

lemma frame_running:
  assumes "\<not> stopped s"
  shows "snd (frame sc DeviceOk s) =
     s\<lparr>submitted := submitted s @ [frame_batch sc (t s)], t := t s + 1,
       requested := requested s + 1, animationId := Some (requested s + 1)\<rparr>"
  using assms by (simp add: frame_def stopped_def Let_def)

lemma frame_stopped:
  assumes "stopped s"
  shows "frame sc dev s = (None, s)"
  using assms by (auto simp: frame_def stopped_def)

lemma handleCriticalError_stops:
  "stopped (snd (handleCriticalError e s))"
  by (auto simp: handleCriticalError_def stopped_def Let_def fail_def
           split: thrown.splits option.splits)

lemma handleCriticalError_frame_effects:
  "submitted (snd (handleCriticalError e s)) = submitted s \<and>
   requested (snd (handleCriticalError e s)) = requested s \<and>
   t (snd (handleCriticalError e s)) = t s"
  by (auto simp: handleCriticalError_def stopped_def Let_def fail_def
           split: thrown.splits option.splits)

lemma step_stopped:
  assumes "stopped s"
  shows "stopped (step sc s ev) \<and> submitted (step sc s ev) = submitted s \<and>
         requested (step sc s ev) = requested s \<and> t (step sc s ev) = t s"
proof (cases ev)
  case (Resume dev)
  then show ?thesis using assms by (simp add: step_def frame_stopped)
next
  case (Failure e)
  then show ?thesis
    using handleCriticalError_stops [of e s] handleCriticalError_frame_effects [of e s]
    by (simp add: step_def)
qed

lemma run_stopped:
  assumes "stopped s"
  shows "stopped (run sc s evs) \<and> submitted (run sc s evs) = submitted s \<and>
         requested (run sc s evs) = requested s \<and> t (run sc s evs) = t s"
  using assms
proof (induction evs arbitrary: s)
  case Nil
  then show ?case by (simp add: run_def)
next
  case (Cons ev evs)
  have "run sc s (ev # evs) = run sc (step sc s ev) evs" by (simp add: run_def)
  with Cons.IH [of "step sc s ev"] step_stopped [OF Cons.prems, of sc ev]
  show ?case by simp
qed

lemma after_frames_Suc:
  "after_frames sc (Suc n) = snd (frame sc DeviceOk (after_frames sc n))"
  by (simp add: after_frames_def)

lemma after_frames_inv:
  "\<not> stopped (after_frames sc n) \<and> t (after_frames sc n) = n \<and>
   submitted (after_frames sc n) = map (frame_batch sc) [0..<n] \<and>
   requested (after_frames sc n) = n"
proof (induction n)
  case 0
  show ?case by (simp add: after_frames_def app0_def stopped_def)
next
  case (Suc n)
  then have r: "\<not> stopped (after_frames sc n)" by simp
  show ?case
    unfolding after_frames_Suc frame_running [OF r]
    using Suc by (simp add: stopped_def)
qed

lemma init_scene_buffers:
  "\<exists>sc. init_scene sprite simParam seed next = (Inr sc, next + 2) \<and>
        map handle (particleBuffers sc) = [next, Suc next] \<and>
        map contents (particleBuffers sc) = [seed, seed] \<and>
        particleBindGroups sc =
          [\<lparr>binding0 = handle simParam, binding1 = next, binding2 = Suc next\<rparr>,
           \<lparr>binding0 = handle simParam, binding1 = Suc next, binding2 = next\<rparr>] \<and>
        spriteVertexBuffer sc = sprite \<and> simParamBuffer sc = simParam"
  by (simp add: init_scene_def createParticleBuffers_eq createParticleBindGroups_def
        upt_rec numeral_eq_Suc)

text \<open>
  C2.  In the scene that \<open>init\<close> builds, for every \<open>n\<close>: after \<open>n\<close> completed frames the
  counter is \<open>n\<close>, and frame \<open>n\<close> submits one batch whose compute pass uses the bind group
  of parity \<open>n mod 2\<close>; that bind group reads buffer \<open>n mod 2\<close> (binding 1) and writes buffer
  \<open>(n + 1) mod 2\<close> (binding 2), and the render pass of the batch draws from buffer
  \<open>(n + 1) mod 2\<close>, the buffer that the compute pass of the same batch writes.  The two
  buffers are distinct objects, so each bind group reads one and writes the other, and
  the two bind groups have the roles swapped.
\<close>

theorem double_buffering:
  "\<exists>sc next'. init_scene sprite simParam seed next = (Inr sc, next') \<and>
     length (particleBuffers sc) = 2 \<and> length (particleBindGroups sc) = 2 \<and>
     handle (particleBuffers sc ! 0) \<noteq> handle (particleBuffers sc ! 1) \<and>
     t (after_frames sc n) = n \<and>
     submitted (after_frames sc n) = map (frame_batch sc) [0..<n] \<and>
     submitted (snd (frame sc DeviceOk (after_frames sc n))) =
       submitted (after_frames sc n) @ [frame_batch sc n] \<and>
     t (snd (frame sc DeviceOk (after_frames sc n))) = n + 1 \<and>
     computeBindGroup (frame_batch sc n) = particleBindGroups sc ! (n mod 2) \<and>
     binding1 (particleBindGroups sc ! (n mod 2)) = handle (particleBuffers sc ! (n mod 2)) \<and>
     binding2 (particleBindGroups sc ! (n mod 2)) =
       handle (particleBuffers sc ! ((n + 1) mod 2)) \<and>
     binding1 (particleBindGroups sc ! (n mod 2)) \<noteq>
       binding2 (particleBindGroups sc ! (n mod 2)) \<and>
     vertexBuffer0 (frame_batch sc n) = handle (particleBuffers sc ! ((n + 1) mod 2)) \<and>
     vertexBuffer0 (frame_batch sc n) = binding2 (computeBindGroup (frame_batch sc n))"
proof -
  obtain sc where sc: "init_scene sprite simParam seed next = (Inr sc, next + 2)"
    and h: "map handle (particleBuffers sc) = [next, Suc next]"
    and g: "particleBindGroups sc =
          [\<lparr>binding0 = handle simParam, binding1 = next, binding2 = Suc next\<rparr>,
           \<lparr>binding0 = handle simParam, binding1 = Suc next, binding2 = next\<rparr>]"
    using init_scene_buffers [of sprite simParam seed "next"] by auto
  from h have len: "length (particleBuffers sc) = 2"
    by (metis length_map length_Cons list.size(3) numeral_2_eq_2)
  have h0: "handle (particleBuffers sc ! 0) = next" and h1: "handle (particleBuffers sc ! 1) = Suc next"
    using h len by (metis nth_map nth_Cons_0 zero_less_numeral, metis nth_map nth_Cons_0 nth_Cons_Suc One_nat_def one_less_numeral_iff semiring_norm(76))
  have par: "n mod 2 = 0 \<and> (n + 1) mod 2 = 1 \<or> n mod 2 = 1 \<and> (n + 1) mod 2 = 0"
    by presburger
  have r: "\<not> stopped (after_frames sc n)" using after_frames_inv by blast
  have inv: "t (after_frames sc n) = n" "submitted (after_frames sc n) = map (frame_batch sc) [0..<n]"
    using after_frames_inv by blast+
  show ?thesis
    apply (rule exI [of _ sc], rule exI [of _ "next + 2"])
    using sc len h0 h1 par inv g
    by (auto simp: frame_running [OF r] frame_batch_def)
qed

theorem double_buffering_witness:
  "\<exists>sc next'. init_scene (spriteVertexBuffer sample_scene) (simParamBuffer sample_scene)
        [1, 2, 3, 4] 2 = (Inr sc, next') \<and>
     length (particleBuffers sc) = 2 \<and> length (particleBindGroups sc) = 2 \<and>
     handle (particleBuffers sc ! 0) \<noteq> handle (particleBuffers sc ! 1) \<and>
     t (after_frames sc 3) = 3 \<and>
     submitted (after_frames sc 3) = map (frame_batch sc) [0..<3] \<and>
     submitted (snd (frame sc DeviceOk (after_frames sc 3))) =
       submitted (after_frames sc 3) @ [frame_batch sc 3] \<and>
     t (snd (frame sc DeviceOk (after_frames sc 3))) = 3 + 1 \<and>
     computeBindGroup (frame_batch sc 3) = particleBindGroups sc ! (3 mod 2) \<and>
     binding1 (particleBindGroups sc ! (3 mod 2)) = handle (particleBuffers sc ! (3 mod 2)) \<and>
     binding2 (particleBindGroups sc ! (3 mod 2)) =
       handle (particleBuffers sc ! ((3 + 1) mod 2)) \<and>
     binding1 (particleBindGroups sc ! (3 mod 2)) \<noteq>
       binding2 (particleBindGroups sc ! (3 mod 2)) \<and>
     vertexBuffer0 (frame_batch sc 3) = handle (particleBuffers sc ! ((3 + 1) mod 2)) \<and>
     vertexBuffer0 (frame_batch sc 3) = binding2 (computeBindGroup (frame_batch sc 3))"
  by (rule double_buffering)

text \<open>
  C8.  handleCriticalError turns the running flag off.  Once the flag is off, whatever
  happens next (the loop is resumed any number of times, with or without a surface;
  further failures are reported), no batch is submitted, no animation frame is
  requested and the counter stands still: a resumed \<open>frame\<close> returns at its first
  statement.  A frame that passes that check and has its surface is submitted whole:
  nothing between the check and the submit reads the flag.  When the surface cannot be
  acquired the frame encodes and submits nothing, and the loop is stopped.
\<close>

theorem no_frame_after_stop:
  "stopped (snd (handleCriticalError e s0)) \<and>
   (stopped s \<longrightarrow>
      frame sc dev s = (None, s) \<and>
      stopped (run sc s evs) \<and>
      submitted (run sc s evs) = submitted s \<and>
      requested (run sc s evs) = requested s \<and>
      t (run sc s evs) = t s) \<and>
   (\<not> stopped s \<longrightarrow>
      submitted (snd (frame sc DeviceOk s)) = submitted s @ [frame_batch sc (t s)] \<and>
      stopped (snd (frame sc (SurfaceThrows e) s)) \<and>
      submitted (snd (frame sc (SurfaceThrows e) s)) = submitted s \<and>
      requested (snd (frame sc (SurfaceThrows e) s)) = requested s)"
proof (intro conjI impI)
  show "stopped (snd (handleCriticalError e s0))"
    by (rule handleCriticalError_stops)
next
  assume st: "stopped s"
  show "frame sc dev s = (None, s)" using st by (rule frame_stopped)
  show "stopped (run sc s evs)" "submitted (run sc s evs) = submitted s"
    "requested (run sc s evs) = requested s" "t (run sc s evs) = t s"
    using run_stopped [OF st, of sc evs] by simp_all
next
  assume r: "\<not> stopped s"
  show "submitted (snd (frame sc DeviceOk s)) = submitted s @ [frame_batch sc (t s)]"
    by (simp add: frame_running [OF r])
  have f: "frame sc (SurfaceThrows e) s = handleCriticalError e s"
    using r by (simp add: frame_def stopped_def)
  show "stopped (snd (frame sc (SurfaceThrows e) s))"
    unfolding f by (rule handleCriticalError_stops)
  show "submitted (snd (frame sc (SurfaceThrows e) s)) = submitted s"
    "requested (snd (frame sc (SurfaceThrows e) s)) = requested s"
    unfolding f using handleCriticalError_frame_effects [of e s] by simp_all
qed

theorem no_frame_after_stop_witness:
  "stopped (snd (handleCriticalError (ErrorObject ''lost'') (after_frames sample_scene 2))) \<and>
   submitted (run sample_scene
       (snd (handleCriticalError (ErrorObject ''lost'') (after_frames sample_scene 2)))
       [Resume DeviceOk, Failure Nullish, Resume (SurfaceThrows NoMessage), Resume DeviceOk])
     = submitted (snd (handleCriticalError (ErrorObject ''lost'') (after_frames sample_scene 2))) \<and>
   requested (run sample_scene
       (snd (handleCriticalError (ErrorObject ''lost'') (after_frames sample_scene 2)))
       [Resume DeviceOk, Failure Nullish, Resume (SurfaceThrows NoMessage), Resume DeviceOk])
     = requested (snd (handleCriticalError (ErrorObject ''lost'') (after_frames sample_scene 2))) \<and>
   \<not> stopped (app0 sample_scene) \<and>
   submitted (snd (frame sample_scene DeviceOk (app0 sample_scene)))
     = submitted (app0 sample_scene) @ [frame_batch sample_scene (t (app0 sample_scene))]"
proof -
  let ?s = "snd (handleCriticalError (ErrorObject ''lost'') (after_frames sample_scene 2))"
  let ?evs = "[Resume DeviceOk, Failure Nullish, Resume (SurfaceThrows NoMessage), Resume DeviceOk]"
  have a: "stopped ?s"
    using no_frame_after_stop [of "ErrorObject ''lost''" "after_frames sample_scene 2"]
    by simp
  have b: "\<not> stopped (app0 sample_scene)"
    by (simp add: app0_def stopped_def)
  from a b
    no_frame_after_stop [where s = ?s and sc = sample_scene and evs = ?evs]
    no_frame_after_stop [where s = "app0 sample_scene" and sc = sample_scene]
  show ?thesis by simp
qed

section \<open>Failure reporting: the claim\<close>

lemma handleCriticalError_twice:
  assumes "\<not> errorOccurred s"
  shows "console (snd (handleCriticalError e2 (snd (handleCriticalError (ErrorObject msg) s))))
           = console s @ [''Fatal error: '' @ msg]"
    and "console (snd (handleCriticalError (ErrorObject msg) s))
           = console s @ [''Fatal error: '' @ msg]"
  using assms
  by (auto simp: handleCriticalError_def Let_def fail_def split: option.splits)

lemma fail_dialog_twice:
  assumes "errorOutput ui \<noteq> Some ConsoleOutput" and "\<not> dialogOpen ui"
  shows "reports (snd (fail_dialog d2 m2 (snd (fail_dialog True m1 ui))))
           = reports ui @ [ModalShown m1]"
    and "dialogText (snd (fail_dialog d2 m2 (snd (fail_dialog True m1 ui)))) = m1"
    and "dialogOpen (snd (fail_dialog d2 m2 (snd (fail_dialog True m1 ui))))"
proof -
  have cases: "errorOutput ui = None \<or> errorOutput ui = Some DialogOutput"
    using assms(1) by (cases "errorOutput ui") (auto intro: error_output.exhaust)
  then show "reports (snd (fail_dialog d2 m2 (snd (fail_dialog True m1 ui))))
           = reports ui @ [ModalShown m1]"
    and "dialogText (snd (fail_dialog d2 m2 (snd (fail_dialog True m1 ui)))) = m1"
    and "dialogOpen (snd (fail_dialog d2 m2 (snd (fail_dialog True m1 ui))))"
    using assms(2)
    by (auto simp: fail_dialog_def createErrorOutput_def show_message_def Let_def)
qed

text \<open>
  C7.  Not every path reports once.  The dialog copy of \<open>fail\<close>, when there is no
  document, writes every message to the console, and so does the console copy of
  \<open>fail\<close>: two device notifications in succession give two visible reports.
\<close>

theorem two_reports_counterexample:
  "reports (snd (on_notification_dialog False (UncapturedError ''second'')
             (snd (on_notification_dialog False (DeviceLost ''destroyed'' ''first'') ui0))))
     = [ConsoleError (notification_text (DeviceLost ''destroyed'' ''first'')),
        ConsoleError (notification_text (UncapturedError ''second''))] \<and>
   snd (on_notification (UncapturedError ''second'')
          (snd (on_notification (DeviceLost ''destroyed'' ''first'') [])))
     = [notification_text (DeviceLost ''destroyed'' ''first''),
        notification_text (UncapturedError ''second'')]"
  by (simp add: on_notification_dialog_def on_notification_def fail_dialog_def fail_def
        createErrorOutput_def show_message_def ui0_def)

text \<open>
  C7, as amended.  Reporting is idempotent on the two guarded paths.  (1) In a page,
  with the dialog copy of \<open>fail\<close> and no dialog open: two device notifications in
  succession show exactly one dialog, with the text of the first; the second is
  swallowed.  (2) Two calls of handleCriticalError in succession, the first with an
  error that has a message, while no error has occurred before: exactly one report is
  logged, the first error's; the second call is swallowed.
\<close>

theorem failure_reported_once:
  "(errorOutput ui \<noteq> Some ConsoleOutput \<and> \<not> dialogOpen ui \<longrightarrow>
      reports (snd (on_notification_dialog dd nb (snd (on_notification_dialog True na ui))))
        = reports ui @ [ModalShown (notification_text na)] \<and>
      dialogText (snd (on_notification_dialog dd nb (snd (on_notification_dialog True na ui))))
        = notification_text na) \<and>
   (\<not> errorOccurred s \<longrightarrow>
      console (snd (handleCriticalError eb (snd (handleCriticalError (ErrorObject msg) s))))
        = console s @ [''Fatal error: '' @ msg] \<and>
      fst (handleCriticalError eb (snd (handleCriticalError (ErrorObject msg) s))) = None)"
proof (intro conjI impI)
  assume a: "errorOutput ui \<noteq> Some ConsoleOutput \<and> \<not> dialogOpen ui"
  then have a1: "errorOutput ui \<noteq> Some ConsoleOutput" and a2: "\<not> dialogOpen ui" by simp_all
  show "reports (snd (on_notification_dialog dd nb (snd (on_notification_dialog True na ui))))
        = reports ui @ [ModalShown (notification_text na)]"
    unfolding on_notification_dialog_def by (rule fail_dialog_twice(1) [OF a1 a2])
  show "dialogText (snd (on_notification_dialog dd nb (snd (on_notification_dialog True na ui))))
        = notification_text na"
    unfolding on_notification_dialog_def by (rule fail_dialog_twice(2) [OF a1 a2])
next
  assume b: "\<not> errorOccurred s"
  show "console (snd (handleCriticalError eb (snd (handleCriticalError (ErrorObject msg) s))))
        = console s @ [''Fatal error: '' @ msg]"
    by (rule handleCriticalError_twice(1) [OF b])
  have "errorOccurred (snd (handleCriticalError (ErrorObject msg) s))"
    by (auto simp: handleCriticalError_def Let_def fail_def split: option.splits)
  then show "fst (handleCriticalError eb (snd (handleCriticalError (ErrorObject msg) s))) = None"
    by (simp add: handleCriticalError_def)
qed

theorem failure_reported_once_witness:
  "reports (snd (on_notification_dialog True (UncapturedError ''second'')
             (snd (on_notification_dialog True (DeviceLost ''destroyed'' ''first'') ui0))))
     = [ModalShown (notification_text (DeviceLost ''destroyed'' ''first''))] \<and>
   console (snd (handleCriticalError (ErrorObject ''second'')
             (snd (handleCriticalError (ErrorObject ''first'') (app0 sample_scene)))))
     = [''Fatal error: first'']"
proof -
  have a: "errorOutput ui0 \<noteq> Some ConsoleOutput \<and> \<not> dialogOpen ui0"
    by (simp add: ui0_def)
  have b: "\<not> errorOccurred (app0 sample_scene)"
    by (simp add: app0_def)
  have c: "reports ui0 = []" "console (app0 sample_scene) = []"
    by (simp_all add: ui0_def app0_def)
  from a b c
    failure_reported_once [where ui = ui0 and s = "app0 sample_scene" and dd = True
      and na = "DeviceLost ''destroyed'' ''first''" and nb = "UncapturedError ''second''"
      and eb = "ErrorObject ''second''" and msg = "''first''"]
  show ?thesis by simp
qed

section \<open>Entry points: lemmas\<close>

lemma exec_first_Some:
  assumes "exec_first m s = Some r"
  shows "\<exists>pre post. s = pre @ post \<and> m post = Some r"
  using assms
proof (induction s)
  case Nil
  then show ?case by simp
next
  case (Cons c cs)
  show ?case
  proof (cases "m (c # cs)")
    case (Some r')
    with Cons.prems have "m (c # cs) = Some r" by simp
    then show ?thesis by (metis append_Nil)
  next
    case None
    with Cons.prems have "exec_first m cs = Some r" by simp
    with Cons.IH obtain pre post where "cs = pre @ post" "m post = Some r" by blast
    then have "c # cs = (c # pre) @ post" by simp
    with \<open>m post = Some r\<close> show ?thesis by blast
  qed
qed

lemma exec_first_complete:
  assumes "m post \<noteq> None"
  shows "exec_first m (pre @ post) \<noteq> None"
proof (induction pre)
  case Nil
  show ?case using assms by (cases post) (auto split: option.splits)
next
  case (Cons c pre)
  then show ?case by (auto split: option.splits)
qed

lemma fn_decl_at_Some:
  assumes "fn_decl_at s = Some nm"
  shows "\<exists>ws rest. s = ''fn'' @ ws @ nm @ rest \<and> ws \<noteq> [] \<and> list_all is_space ws \<and>
           nm \<noteq> [] \<and> list_all is_name_char nm \<and> (rest = [] \<or> \<not> is_name_char (hd rest))"
proof -
  let ?r = "drop 2 s"
  let ?ws = "takeWhile is_space ?r"
  let ?rest = "dropWhile is_name_char (dropWhile is_space ?r)"
  from assms have p: "prefix ''fn'' s"
    by (simp add: fn_decl_at_def split: if_splits)
  then have s: "s = ''fn'' @ ?r"
    by (metis append_eq_conv_conj length_Cons list.size(3) numeral_2_eq_2 prefixE)
  from assms p have ws: "?ws \<noteq> []" and nm: "nm = takeWhile is_name_char (dropWhile is_space ?r)"
    and ne: "nm \<noteq> []"
    by (auto simp: fn_decl_at_def Let_def split: if_splits)
  have "?r = ?ws @ nm @ ?rest"
    unfolding nm by simp
  with s have "s = ''fn'' @ ?ws @ nm @ ?rest" by simp
  moreover have "list_all is_space ?ws"
    by (simp add: list_all_iff) (meson set_takeWhileD)
  moreover have "list_all is_name_char nm"
    unfolding nm by (simp add: list_all_iff) (meson set_takeWhileD)
  moreover have "?rest = [] \<or> \<not> is_name_char (hd ?rest)"
    using hd_dropWhile [of is_name_char "dropWhile is_space ?r"] by blast
  ultimately show ?thesis using ws ne by blast
qed

lemma fn_decl_at_complete:
  assumes "ws \<noteq> []" "list_all is_space ws" "nm \<noteq> []" "list_all is_name_char nm"
  shows "fn_decl_at (''fn'' @ ws @ nm @ rest) \<noteq> None"
proof -
  have a: "takeWhile is_space (ws @ nm @ rest) = ws @ takeWhile is_space (nm @ rest)"
    using assms(2) by (simp add: list_all_iff takeWhile_append2)
  have b: "dropWhile is_space (ws @ nm @ rest) = dropWhile is_space (nm @ rest)"
    using assms(2) by (simp add: list_all_iff dropWhile_append2)
  obtain c cs where nm: "nm = c # cs" using assms(3) by (cases nm) auto
  then have c: "\<not> is_space c" using assms(4) by (simp add: is_name_char_def)
  have d: "dropWhile is_space (nm @ rest) = nm @ rest"
    using c nm by simp
  have e: "takeWhile is_name_char (nm @ rest) = nm @ takeWhile is_name_char rest"
    using assms(4) by (simp add: list_all_iff takeWhile_append2)
  show ?thesis
    using a b d e assms(1,3) by (simp add: fn_decl_at_def Let_def)
qed

lemma stage_fn_at_Some:
  assumes "stage_fn_at marker s = Some nm"
  shows "\<exists>ws1 ws2 rest. s = marker @ ws1 @ ''fn'' @ ws2 @ nm @ rest \<and>
           ws1 \<noteq> [] \<and> list_all is_space ws1 \<and> ws2 \<noteq> [] \<and> list_all is_space ws2 \<and>
           nm \<noteq> [] \<and> list_all is_name_char nm \<and> (rest = [] \<or> \<not> is_name_char (hd rest))"
proof -
  let ?r = "drop (length marker) s"
  let ?ws = "takeWhile is_space ?r"
  from assms have p: "prefix marker s"
    by (simp add: stage_fn_at_def split: if_splits)
  then have s: "s = marker @ ?r"
    by (metis append_eq_conv_conj prefixE)
  from assms p have ws: "?ws \<noteq> []" and f: "fn_decl_at (dropWhile is_space ?r) = Some nm"
    by (auto simp: stage_fn_at_def Let_def split: if_splits)
  from fn_decl_at_Some [OF f] obtain ws2 rest where
    d: "dropWhile is_space ?r = ''fn'' @ ws2 @ nm @ rest" and
    w: "ws2 \<noteq> []" "list_all is_space ws2" "nm \<noteq> []" "list_all is_name_char nm"
       "rest = [] \<or> \<not> is_name_char (hd rest)"
    by blast
  have "?r = ?ws @ dropWhile is_space ?r" by simp
  with d have "?r = ?ws @ ''fn'' @ ws2 @ nm @ rest" by simp
  with s have "s = marker @ ?ws @ ''fn'' @ ws2 @ nm @ rest" by simp
  moreover have "list_all is_space ?ws"
    by (simp add: list_all_iff) (meson set_takeWhileD)
  ultimately show ?thesis using ws w by blast
qed

lemma stage_fn_at_complete:
  assumes "ws1 \<noteq> []" "list_all is_space ws1" "ws2 \<noteq> []" "list_all is_space ws2"
    "nm \<noteq> []" "list_all is_name_char nm"
  shows "stage_fn_at marker (marker @ ws1 @ ''fn'' @ ws2 @ nm @ rest) \<noteq> None"
proof -
  let ?t = "''fn'' @ ws2 @ nm @ rest"
  have a: "takeWhile is_space (ws1 @ ?t) = ws1"
    using assms(2) by (simp add: list_all_iff takeWhile_append2 is_space_def)
  have b: "dropWhile is_space (ws1 @ ?t) = ?t"
    using assms(2) by (simp add: list_all_iff dropWhile_append2 is_space_def)
  have "stage_fn_at marker (marker @ ws1 @ ?t) = fn_decl_at ?t"
    using a b assms(1) by (simp add: stage_fn_at_def Let_def)
  then show ?thesis
    using fn_decl_at_complete [OF assms(3-6), of rest] by simp
qed

lemma stage_fn_lazy_at_Some:
  assumes "stage_fn_lazy_at marker s = Some nm"
  shows "\<exists>mid ws rest. s = marker @ mid @ ''fn'' @ ws @ nm @ rest \<and>
           ws \<noteq> [] \<and> list_all is_space ws \<and> nm \<noteq> [] \<and> list_all is_name_char nm \<and>
           (rest = [] \<or> \<not> is_name_char (hd rest))"
proof -
  let ?r = "drop (length marker) s"
  from assms have p: "prefix marker s"
    by (simp add: stage_fn_lazy_at_def split: if_splits)
  then have s: "s = marker @ ?r"
    by (metis append_eq_conv_conj prefixE)
  from assms p have "exec_first fn_decl_at ?r = Some nm"
    by (simp add: stage_fn_lazy_at_def)
  from exec_first_Some [OF this] obtain mid post where
    r: "?r = mid @ post" and f: "fn_decl_at post = Some nm" by blast
  from fn_decl_at_Some [OF f] obtain ws rest where
    d: "post = ''fn'' @ ws @ nm @ rest" and
    w: "ws \<noteq> []" "list_all is_space ws" "nm \<noteq> []" "list_all is_name_char nm"
       "rest = [] \<or> \<not> is_name_char (hd rest)"
    by blast
  from s r d have "s = marker @ mid @ ''fn'' @ ws @ nm @ rest" by simp
  with w show ?thesis by blast
qed

lemma stage_fn_lazy_at_complete:
  assumes "ws \<noteq> []" "list_all is_space ws" "nm \<noteq> []" "list_all is_name_char nm"
  shows "stage_fn_lazy_at marker (marker @ mid @ ''fn'' @ ws @ nm @ rest) \<noteq> None"
proof -
  have "exec_first fn_decl_at (mid @ (''fn'' @ ws @ nm @ rest)) \<noteq> None"
    by (rule exec_first_complete) (rule fn_decl_at_complete [OF assms])
  then show ?thesis by (simp add: stage_fn_lazy_at_def)
qed

lemma strict_exec_iff:
  "exec_first (stage_fn_at marker) code \<noteq> None \<longleftrightarrow> (\<exists>nm. declares_entry marker nm code)"
proof
  assume "exec_first (stage_fn_at marker) code \<noteq> None"
  then obtain nm where "exec_first (stage_fn_at marker) code = Some nm" by auto
  from exec_first_Some [OF this] obtain pre post where
    c: "code = pre @ post" and m: "stage_fn_at marker post = Some nm" by blast
  from stage_fn_at_Some [OF m] c show "\<exists>nm. declares_entry marker nm code"
    unfolding declares_entry_def by blast
next
  assume "\<exists>nm. declares_entry marker nm code"
  then obtain nm pre ws1 ws2 rest where
    c: "code = pre @ (marker @ ws1 @ ''fn'' @ ws2 @ nm @ rest)" and
    w: "ws1 \<noteq> []" "list_all is_space ws1" "ws2 \<noteq> []" "list_all is_space ws2"
       "nm \<noteq> []" "list_all is_name_char nm"
    unfolding declares_entry_def by blast
  show "exec_first (stage_fn_at marker) code \<noteq> None"
    unfolding c by (rule exec_first_complete) (rule stage_fn_at_complete [OF w])
qed

lemma strict_exec_Some:
  assumes "exec_first (stage_fn_at marker) code = Some nm"
  shows "declares_entry marker nm code"
proof -
  from exec_first_Some [OF assms] obtain pre post where
    c: "code = pre @ post" and m: "stage_fn_at marker post = Some nm" by blast
  from stage_fn_at_Some [OF m] c show ?thesis
    unfolding declares_entry_def by blast
qed

lemma lazy_exec_iff:
  "exec_first (stage_fn_lazy_at marker) code \<noteq> None \<longleftrightarrow>
     (\<exists>nm. declares_entry_after marker nm code)"
proof
  assume "exec_first (stage_fn_lazy_at marker) code \<noteq> None"
  then obtain nm where "exec_first (stage_fn_lazy_at marker) code = Some nm" by auto
  from exec_first_Some [OF this] obtain pre post where
    c: "code = pre @ post" and m: "stage_fn_lazy_at marker post = Some nm" by blast
  from stage_fn_lazy_at_Some [OF m] c show "\<exists>nm. declares_entry_after marker nm code"
    unfolding declares_entry_after_def by blast
next
  assume "\<exists>nm. declares_entry_after marker nm code"
  then obtain nm pre mid ws rest where
    c: "code = pre @ (marker @ mid @ ''fn'' @ ws @ nm @ rest)" and
    w: "ws \<noteq> []" "list_all is_space ws" "nm \<noteq> []" "list_all is_name_char nm"
    unfolding declares_entry_after_def by blast
  show "exec_first (stage_fn_lazy_at marker) code \<noteq> None"
    unfolding c by (rule exec_first_complete) (rule stage_fn_lazy_at_complete [OF w])
qed

lemma lazy_exec_Some:
  assumes "exec_first (stage_fn_lazy_at marker) code = Some nm"
  shows "declares_entry_after marker nm code"
proof -
  from exec_first_Some [OF assms] obtain pre post where
    c: "code = pre @ post" and m: "stage_fn_lazy_at marker post = Some nm" by blast
  from stage_fn_lazy_at_Some [OF m] c show ?thesis
    unfolding declares_entry_after_def by blast
qed

lemma declares_entry_sublist:
  "declares_entry marker nm code \<Longrightarrow> sublist marker code"
  unfolding declares_entry_def sublist_def by blast

lemma declares_entry_after_sublist:
  "declares_entry_after marker nm code \<Longrightarrow> sublist marker code"
  unfolding declares_entry_after_def sublist_def by blast

lemma parseEntryPoints_compute:
  "parseEntryPoints code ''compute'' =
     (case exec_first (stage_fn_lazy_at ''@compute'') code of
        None \<Rightarrow> Inl MissingEntryPoint
      | Some nm \<Rightarrow> Inr \<lparr>vertex = None, fragment = None, compute = Some nm\<rparr>)"
  by (simp add: parseEntryPoints_def split: option.splits)

lemma parseEntryPoints_render:
  "parseEntryPoints code ''render'' =
     (case (exec_first (stage_fn_at ''@vertex'') code, exec_first (stage_fn_at ''@fragment'') code) of
        (Some v, Some f) \<Rightarrow> Inr \<lparr>vertex = Some v, fragment = Some f, compute = None\<rparr>
      | _ \<Rightarrow> Inl MissingEntryPoint)"
  by (simp add: parseEntryPoints_def split: option.splits)

lemma parseEntryPoints_other:
  assumes "type' \<noteq> ''compute''" "type' \<noteq> ''render''"
  shows "parseEntryPoints code type' = Inr \<lparr>vertex = None, fragment = None, compute = None\<rparr>"
  using assms by (simp add: parseEntryPoints_def)

text \<open>
  C5.  The presence of the markers does not decide the outcome.  A render shader that
  holds both markers and both functions, with a comment between "@fragment" and "fn",
  is refused; so is a compute text that holds the marker and no function.
\<close>

theorem marker_present_counterexample:
  "sublist ''@vertex'' commented_shader \<and> sublist ''@fragment'' commented_shader \<and>
   parseEntryPoints commented_shader ''render'' = Inl MissingEntryPoint \<and>
   sublist ''@compute'' ''@compute'' \<and>
   parseEntryPoints ''@compute'' ''compute'' = Inl MissingEntryPoint"
  by code_simp

text \<open>
  C5, as amended.  parseEntryPoints throws MissingEntryPoint exactly when the text does
  not declare an entry point for a stage of the requested kind: for compute, "@compute"
  followed anywhere later by "fn", white space and a name; for render, both "@vertex"
  and "@fragment", each followed directly by white space, "fn", white space and a name.
  In particular it throws whenever a marker of the requested kind is absent.  When it
  does not throw it returns the declared names for the requested kind and null for the
  other stages.  For a kind that is neither compute nor render it returns three nulls.
\<close>

theorem entry_point_introspection:
  "(parseEntryPoints code ''compute'' = Inl MissingEntryPoint \<longleftrightarrow>
      \<not> (\<exists>nm. declares_entry_after ''@compute'' nm code)) \<and>
   (parseEntryPoints code ''render'' = Inl MissingEntryPoint \<longleftrightarrow>
      \<not> ((\<exists>nm. declares_entry ''@vertex'' nm code) \<and>
         (\<exists>nm. declares_entry ''@fragment'' nm code))) \<and>
   (\<not> sublist ''@compute'' code \<longrightarrow>
      parseEntryPoints code ''compute'' = Inl MissingEntryPoint) \<and>
   (\<not> sublist ''@vertex'' code \<or> \<not> sublist ''@fragment'' code \<longrightarrow>
      parseEntryPoints code ''render'' = Inl MissingEntryPoint) \<and>
   (parseEntryPoints code ''compute'' = Inr e \<longrightarrow>
      vertex e = None \<and> fragment e = None \<and>
      (\<exists>nm. compute e = Some nm \<and> declares_entry_after ''@compute'' nm code)) \<and>
   (parseEntryPoints code ''render'' = Inr e \<longrightarrow>
      compute e = None \<and>
      (\<exists>v f. vertex e = Some v \<and> declares_entry ''@vertex'' v code \<and>
             fragment e = Some f \<and> declares_entry ''@fragment'' f code)) \<and>
   (type' \<noteq> ''compute'' \<and> type' \<noteq> ''render'' \<longrightarrow>
      parseEntryPoints code type' = Inr \<lparr>vertex = None, fragment = None, compute = None\<rparr>)"
proof -
  let ?c = "exec_first (stage_fn_lazy_at ''@compute'') code"
  let ?v = "exec_first (stage_fn_at ''@vertex'') code"
  let ?f = "exec_first (stage_fn_at ''@fragment'') code"
  have c_iff: "?c \<noteq> None \<longleftrightarrow> (\<exists>nm. declares_entry_after ''@compute'' nm code)"
    by (rule lazy_exec_iff)
  have v_iff: "?v \<noteq> None \<longleftrightarrow> (\<exists>nm. declares_entry ''@vertex'' nm code)"
    by (rule strict_exec_iff)
  have f_iff: "?f \<noteq> None \<longleftrightarrow> (\<exists>nm. declares_entry ''@fragment'' nm code)"
    by (rule strict_exec_iff)
  have p1: "parseEntryPoints code ''compute'' = Inl MissingEntryPoint \<longleftrightarrow>
      \<not> (\<exists>nm. declares_entry_after ''@compute'' nm code)"
    unfolding c_iff [symmetric] parseEntryPoints_compute by (simp split: option.splits)
  have p2: "parseEntryPoints code ''render'' = Inl MissingEntryPoint \<longleftrightarrow>
      \<not> ((\<exists>nm. declares_entry ''@vertex'' nm code) \<and>
         (\<exists>nm. declares_entry ''@fragment'' nm code))"
    unfolding v_iff [symmetric] f_iff [symmetric] parseEntryPoints_render
    by (simp split: option.splits)
  have p3: "parseEntryPoints code ''compute'' = Inl MissingEntryPoint"
    if "\<not> sublist ''@compute'' code"
    using that p1 declares_entry_after_sublist by blast
  have p4: "parseEntryPoints code ''render'' = Inl MissingEntryPoint"
    if "\<not> sublist ''@vertex'' code \<or> \<not> sublist ''@fragment'' code"
    using that p2 declares_entry_sublist by blast
  have p5: "vertex e = None \<and> fragment e = None \<and>
      (\<exists>nm. compute e = Some nm \<and> declares_entry_after ''@compute'' nm code)"
    if h: "parseEntryPoints code ''compute'' = Inr e"
  proof (cases ?c)
    case None
    with h show ?thesis by (simp add: parseEntryPoints_compute)
  next
    case (Some nm)
    with h have "e = \<lparr>vertex = None, fragment = None, compute = Some nm\<rparr>"
      by (simp add: parseEntryPoints_compute)
    with lazy_exec_Some [OF Some] show ?thesis by simp
  qed
  have p6: "compute e = None \<and>
      (\<exists>v f. vertex e = Some v \<and> declares_entry ''@vertex'' v code \<and>
             fragment e = Some f \<and> declares_entry ''@fragment'' f code)"
    if h: "parseEntryPoints code ''render'' = Inr e"
  proof -
    from h obtain v f where v: "?v = Some v" and f: "?f = Some f"
      and e: "e = \<lparr>vertex = Some v, fragment = Some f, compute = None\<rparr>"
      by (auto simp: parseEntryPoints_render split: option.splits)
    with strict_exec_Some [OF v] strict_exec_Some [OF f] show ?thesis by simp
  qed
  show ?thesis
    using p1 p2 p3 p4 p5 p6 parseEntryPoints_other [of type' code] by blast
qed

theorem entry_point_introspection_witness:
  "parseEntryPoints update_shader ''compute'' =
     Inr \<lparr>vertex = None, fragment = None, compute = Some ''main''\<rparr> \<and>
   declares_entry_after ''@compute'' ''main'' update_shader \<and>
   parseEntryPoints sprite_shader ''render'' =
     Inr \<lparr>vertex = Some ''vert_main'', fragment = Some ''frag_main'', compute = None\<rparr> \<and>
   declares_entry ''@vertex'' ''vert_main'' sprite_shader \<and>
   declares_entry ''@fragment'' ''frag_main'' sprite_shader \<and>
   \<not> sublist ''@compute'' sprite_shader \<and>
   parseEntryPoints sprite_shader ''compute'' = Inl MissingEntryPoint \<and>
   \<not> sublist ''@fragment'' update_shader \<and>
   parseEntryPoints update_shader ''render'' = Inl MissingEntryPoint"
proof -
  have c: "parseEntryPoints update_shader ''compute'' =
     Inr \<lparr>vertex = None, fragment = None, compute = Some ''main''\<rparr>" by code_simp
  have r: "parseEntryPoints sprite_shader ''render'' =
     Inr \<lparr>vertex = Some ''vert_main'', fragment = Some ''frag_main'', compute = None\<rparr>"
    by code_simp
  have n1: "\<not> sublist ''@compute'' sprite_shader" by code_simp
  have n2: "\<not> sublist ''@fragment'' update_shader" by code_simp
  from c r n1 n2
    entry_point_introspection [of update_shader "\<lparr>vertex = None, fragment = None, compute = Some ''main''\<rparr>"]
    entry_point_introspection [of sprite_shader
      "\<lparr>vertex = Some ''vert_main'', fragment = Some ''frag_main'', compute = None\<rparr>"]
  show ?thesis by simp
qed

section \<open>Further facts about the failure handlers\<close>

text \<open>The dialog swallows a message only while it is open: after the OK button the next
  failure is shown again.\<close>

lemma shown_again_after_close:
  "reports (snd (fail_dialog d m2 (closeBtn_onclick (snd (fail_dialog True m1 ui0)))))
     = [ModalShown m1, ModalShown m2]"
  by (simp add: fail_dialog_def createErrorOutput_def show_message_def closeBtn_onclick_def
        ui0_def)

text \<open>The first call of handleCriticalError cancels the pending animation frame, releases
  the buffers and unconfigures the context; it never returns normally.\<close>

lemma handleCriticalError_first:
  assumes "\<not> errorOccurred s"
  shows "animationId (snd (handleCriticalError e s)) = None"
    and "cancelled (snd (handleCriticalError e s)) =
           cancelled s @ (case animationId s of Some i \<Rightarrow> [i] | None \<Rightarrow> [])"
    and "destroyed (snd (handleCriticalError e s)) = destroyed s @ resources s"
    and "\<not> contextConfigured (snd (handleCriticalError e s))"
    and "fst (handleCriticalError e s) \<noteq> None"
  using assms
  by (auto simp: handleCriticalError_def Let_def fail_def split: option.splits thrown.splits)

text \<open>A first error that is null or undefined is never reported: reading its message
  throws before \<open>fail\<close> is reached, and the guard swallows every later error.\<close>

lemma nullish_error_unreported:
  assumes "\<not> errorOccurred s"
  shows "console (snd (handleCriticalError e' (snd (handleCriticalError Nullish s)))) = console s"
  using assms
  by (auto simp: handleCriticalError_def Let_def split: option.splits)

end
